theory Spec2Isabelle
  imports Main "HOL-Library.Word"
begin

section \<open>Kubernetes objects, as far as install\_actions.go reads and writes them\<close>

text \<open>
  Fields the actions never touch are carried in one opaque field per struct
  (\<open>..._rest\<close>); a zero-valued remainder is the empty string.  Go's nil and empty
  slices are both the empty list.  \<open>int32\<close> is \<open>32 word\<close> (read with \<open>sint\<close>),
  \<open>uint16\<close> is \<open>16 word\<close>.
\<close>

type_synonym opaque = string

text \<open>\<open>intstr.IntOrString\<close>: a struct of three fields, compared field by field by \<open>==\<close>.\<close>

datatype intstr_Type = intstr_Int | intstr_String

record IntOrString =
  Type :: intstr_Type
  IntVal :: "32 word"
  StrVal :: string

text \<open>\<open>IntOrString{}\<close>, the zero value (\<open>intstr.Int\<close> is 0).\<close>

definition IntOrString_zero :: IntOrString where
  "IntOrString_zero = \<lparr>Type = intstr_Int, IntVal = 0, StrVal = []\<rparr>"

definition FromInt :: "32 word \<Rightarrow> IntOrString" where
  "FromInt val = \<lparr>Type = intstr_Int, IntVal = val, StrVal = []\<rparr>"

definition FromString :: "string \<Rightarrow> IntOrString" where
  "FromString val = \<lparr>Type = intstr_String, IntVal = 0, StrVal = val\<rparr>"

text \<open>\<open>strconv.Itoa\<close>: decimal digits, with a sign.\<close>

fun natDigits :: "nat \<Rightarrow> string" where
  "natDigits n =
     (if n < 10 then [''0123456789'' ! n]
      else natDigits (n div 10) @ [''0123456789'' ! (n mod 10)])"

declare natDigits.simps [simp del]

definition Itoa :: "int \<Rightarrow> string" where
  "Itoa i = (if i < 0 then CHR ''-'' # natDigits (nat (- i)) else natDigits (nat i))"

text \<open>\<open>IntOrString.String()\<close>.\<close>

definition IntOrString_String :: "IntOrString \<Rightarrow> string" where
  "IntOrString_String v =
     (if Type v = intstr_String then StrVal v else Itoa (sint (IntVal v)))"

record ServicePort =
  SP_Name :: string
  SP_Port :: "32 word"
  SP_TargetPort :: IntOrString
  SP_rest :: opaque

record Service =
  Svc_Name :: string
  Svc_Ports :: "ServicePort list"
  Svc_rest :: opaque

record ContainerPort =
  CP_Name :: string
  CP_Protocol :: string
  CP_ContainerPort :: "32 word"
  CP_rest :: opaque

record HTTPGetAction =
  HTTPGet_Port :: IntOrString
  HTTPGet_rest :: opaque

record TCPSocketAction =
  TCPSocket_Port :: IntOrString
  TCPSocket_rest :: opaque

text \<open>\<open>corev1.Probe\<close> with its embedded \<open>Handler\<close>; \<open>Exec\<close> holds the command.\<close>

record Probe =
  Exec :: "string list option"
  HTTPGet :: "HTTPGetAction option"
  TCPSocket :: "TCPSocketAction option"
  Probe_rest :: opaque

record ObjectFieldSelector =
  APIVersion :: string
  FieldPath :: string

record EnvVarSource =
  FieldRef :: "ObjectFieldSelector option"
  EnvVarSource_rest :: opaque

record EnvVar =
  EnvVar_Name :: string
  EnvVar_Value :: string
  EnvVar_ValueFrom :: "EnvVarSource option"

record EnvFromSource =
  Prefix :: string
  EnvFrom_rest :: opaque

record VolumeMount =
  MountPath :: string
  VM_rest :: opaque

record Container =
  Cn_Name :: string
  Image :: string
  Args :: "string list"
  Cn_Ports :: "ContainerPort list"
  Env :: "EnvVar list"
  EnvFrom :: "EnvFromSource list"
  VolumeMounts :: "VolumeMount list"
  LivenessProbe :: "Probe option"
  ReadinessProbe :: "Probe option"
  StartupProbe :: "Probe option"
  Cn_rest :: opaque

text \<open>A workload: its name and \<open>Spec.Template.Spec.Containers\<close>.\<close>

record Deployment =
  Dep_Name :: string
  Containers :: "Container list"
  Dep_rest :: opaque

section \<open>Errors and in-place mutation\<close>

text \<open>
  Every \<open>fmt.Errorf\<close> of the file is a constructor holding the values it formats.
  The actions mutate the object behind a pointer and return an \<open>error\<close>; a model
  function returns the error (or \<open>None\<close> for nil) together with the object as the
  call leaves it.
\<close>

datatype error =
  UnableToFindTargetPort string string
  | UnableToFindPort "32 word" string
  | UnableToFindAppContainer string string
  | UnableToLocatePort string string string
  | NilAction

text \<open>
  \<open>for i := range xs { if cond(xs[i]) { return &xs[i] } }\<close>: the pointer returned
  is the index of the first element that satisfies the condition.
\<close>

fun firstIndex :: "('a \<Rightarrow> bool) \<Rightarrow> 'a list \<Rightarrow> nat option" where
  "firstIndex P [] = None"
| "firstIndex P (x # xs) =
     (if P x then Some 0 else map_option Suc (firstIndex P xs))"

section \<open>makePortSymbolicAction\<close>

record makePortSymbolicAction =
  PortName :: string
  TargetPort :: "16 word"
  SymbolicName :: string

definition portName :: "makePortSymbolicAction \<Rightarrow> string \<Rightarrow> string" where
  "portName m port = (if PortName m = [] then port else PortName m @ ''.'' @ port)"

definition makePortSymbolic_getPort ::
  "makePortSymbolicAction \<Rightarrow> Service \<Rightarrow> IntOrString \<Rightarrow> error + nat" where
  "makePortSymbolic_getPort m svc targetPort =
     (case firstIndex (\<lambda>p. SP_TargetPort p = targetPort \<and> SP_Name p = PortName m)
             (Svc_Ports svc) of
        Some i \<Rightarrow> Inr i
      | None \<Rightarrow>
          Inl (UnableToFindTargetPort (portName m (IntOrString_String targetPort))
                 (Svc_Name svc)))"

text \<open>\<open>p.TargetPort = v\<close> through the pointer \<open>p = &ports[i]\<close>.\<close>

definition setTargetPort :: "Service \<Rightarrow> nat \<Rightarrow> IntOrString \<Rightarrow> Service" where
  "setTargetPort svc i v =
     svc\<lparr>Svc_Ports := (Svc_Ports svc)[i := (Svc_Ports svc ! i)\<lparr>SP_TargetPort := v\<rparr>]\<rparr>"

definition makePortSymbolic_Do ::
  "makePortSymbolicAction \<Rightarrow> Service \<Rightarrow> error option \<times> Service" where
  "makePortSymbolic_Do m svc =
     (case makePortSymbolic_getPort m svc (FromInt (ucast (TargetPort m))) of
        Inl err \<Rightarrow> (Some err, svc)
      | Inr i \<Rightarrow> (None, setTargetPort svc i (FromString (SymbolicName m))))"

definition makePortSymbolic_IsDone :: "makePortSymbolicAction \<Rightarrow> Service \<Rightarrow> bool" where
  "makePortSymbolic_IsDone m svc =
     (case makePortSymbolic_getPort m svc (FromString (SymbolicName m)) of
        Inl err \<Rightarrow> False
      | Inr i \<Rightarrow> True)"

definition makePortSymbolic_Undo ::
  "makePortSymbolicAction \<Rightarrow> Service \<Rightarrow> error option \<times> Service" where
  "makePortSymbolic_Undo m svc =
     (case makePortSymbolic_getPort m svc (FromString (SymbolicName m)) of
        Inl err \<Rightarrow> (Some err, svc)
      | Inr i \<Rightarrow> (None, setTargetPort svc i (FromInt (ucast (TargetPort m)))))"

section \<open>addSymbolicPortAction\<close>

text \<open>
  The struct embeds \<open>makePortSymbolicAction\<close> and has no field of its own;
  \<open>IsDone\<close> is the promoted method of the embedded struct.
\<close>

type_synonym addSymbolicPortAction = makePortSymbolicAction

definition addSymbolicPort_getPort ::
  "addSymbolicPortAction \<Rightarrow> Service \<Rightarrow> 32 word \<Rightarrow> error + nat" where
  "addSymbolicPort_getPort m svc targetPort =
     (case firstIndex
             (\<lambda>p. Type (SP_TargetPort p) = intstr_Int \<and> IntVal (SP_TargetPort p) = 0
                  \<and> SP_Port p = targetPort)
             (Svc_Ports svc) of
        Some i \<Rightarrow> Inr i
      | None \<Rightarrow> Inl (UnableToFindPort targetPort (Svc_Name svc)))"

definition addSymbolicPort_Do ::
  "addSymbolicPortAction \<Rightarrow> Service \<Rightarrow> error option \<times> Service" where
  "addSymbolicPort_Do m svc =
     (case addSymbolicPort_getPort m svc (ucast (TargetPort m)) of
        Inl err \<Rightarrow> (Some err, svc)
      | Inr i \<Rightarrow> (None, setTargetPort svc i (FromString (SymbolicName m))))"

definition addSymbolicPort_IsDone :: "addSymbolicPortAction \<Rightarrow> Service \<Rightarrow> bool" where
  "addSymbolicPort_IsDone m svc = makePortSymbolic_IsDone m svc"

definition addSymbolicPort_Undo ::
  "addSymbolicPortAction \<Rightarrow> Service \<Rightarrow> error option \<times> Service" where
  "addSymbolicPort_Undo m svc =
     (case makePortSymbolic_getPort m svc (FromString (SymbolicName m)) of
        Inl err \<Rightarrow> (Some err, svc)
      | Inr i \<Rightarrow> (None, setTargetPort svc i IntOrString_zero))"

section \<open>Library functions used by addTrafficAgentAction\<close>

text \<open>\<open>strings.Join\<close>.\<close>

fun strings_Join :: "string list \<Rightarrow> string \<Rightarrow> string" where
  "strings_Join [] sep = []"
| "strings_Join [x] sep = x"
| "strings_Join (x # y # ys) sep = x @ sep @ strings_Join (y # ys) sep"

text \<open>
  \<open>filepath.Join\<close> on a system whose separator is the slash: the elements from the
  first non-empty one on are joined with slashes and the result is cleaned
  (\<open>filepath.Clean\<close>: empty and \<open>.\<close> elements go, \<open>..\<close> removes the element before
  it, or goes itself at the root).
\<close>

fun splitSlash :: "string \<Rightarrow> string list" where
  "splitSlash [] = [[]]"
| "splitSlash (c # cs) =
     (if c = CHR ''/'' then [] # splitSlash cs
      else (case splitSlash cs of [] \<Rightarrow> [[c]] | w # ws \<Rightarrow> (c # w) # ws))"

fun cleanElems :: "bool \<Rightarrow> string list \<Rightarrow> string list \<Rightarrow> string list" where
  "cleanElems rooted acc [] = acc"
| "cleanElems rooted acc (e # es) =
     (if e = [] \<or> e = ''.'' then cleanElems rooted acc es
      else if e = ''..'' then
        (if acc \<noteq> [] \<and> last acc \<noteq> ''..'' then cleanElems rooted (butlast acc) es
         else if rooted then cleanElems rooted acc es
         else cleanElems rooted (acc @ [e]) es)
      else cleanElems rooted (acc @ [e]) es)"

definition filepath_Clean :: "string \<Rightarrow> string" where
  "filepath_Clean path =
     (case path of
        [] \<Rightarrow> ''.''
      | c # cs \<Rightarrow>
          (let rooted = (c = CHR ''/'');
               es = cleanElems rooted [] (splitSlash path)
           in if rooted then CHR ''/'' # strings_Join es ''/''
              else if es = [] then ''.'' else strings_Join es ''/''))"

definition filepath_Join :: "string list \<Rightarrow> string" where
  "filepath_Join elem =
     (case dropWhile (\<lambda>e. e = []) elem of
        [] \<Rightarrow> []
      | e # es \<Rightarrow> filepath_Clean (strings_Join (e # es) ''/''))"

section \<open>addTrafficAgentAction\<close>

definition envPrefix :: string where
  "envPrefix = ''TEL_APP_''"

definition telAppMountPoint :: string where
  "telAppMountPoint = ''/tel_app_mounts''"

text \<open>
  Modelled from the spec: the constant \<open>agentContainerName\<close> is declared outside
  install\_actions.go; the spec's scenarios name the agent container
  \<open>traffic-agent\<close>.
\<close>

definition agentContainerName :: string where
  "agentContainerName = ''traffic-agent''"

text \<open>
  \<open>managerAppName\<close> and \<open>managerNamespace\<close> are declared outside the file as well;
  they are parameters of the model.
\<close>

record pkgVars =
  managerAppName :: string
  managerNamespace :: string

record addTrafficAgentAction =
  ContainerPortName :: string
  ContainerPortProto :: string
  ContainerPortNumber :: "16 word"
  ImageName :: string
  containerName :: string

definition appContainer :: "addTrafficAgentAction \<Rightarrow> Deployment \<Rightarrow> Container option" where
  "appContainer ata dep = find (\<lambda>cn. Cn_Name cn = containerName ata) (Containers dep)"

definition agentEnvFrom :: "EnvFromSource list \<Rightarrow> EnvFromSource list" where
  "agentEnvFrom appEF =
     (if length appEF > 0
      then map (\<lambda>appE. appE\<lparr>Prefix := envPrefix @ Prefix appE\<rparr>) appEF
      else appEF)"

definition appEnvironment :: "Container \<Rightarrow> EnvVar list" where
  "appEnvironment appCn =
     map (\<lambda>ev. ev\<lparr>EnvVar_Name := envPrefix @ EnvVar_Name ev\<rparr>) (Env appCn)
     @ [\<lparr>EnvVar_Name = ''TELEPRESENCE_CONTAINER'', EnvVar_Value = Cn_Name appCn,
         EnvVar_ValueFrom = None\<rparr>]"

definition fieldRefEnv :: "string \<Rightarrow> string \<Rightarrow> EnvVar" where
  "fieldRefEnv name path =
     \<lparr>EnvVar_Name = name, EnvVar_Value = [],
      EnvVar_ValueFrom =
        Some \<lparr>FieldRef = Some \<lparr>APIVersion = [], FieldPath = path\<rparr>,
              EnvVarSource_rest = []\<rparr>\<rparr>"

definition agentEnvironment ::
  "pkgVars \<Rightarrow> addTrafficAgentAction \<Rightarrow> string \<Rightarrow> Container \<Rightarrow> EnvVar list" where
  "agentEnvironment pkg ata agentName appCn =
     appEnvironment appCn
     @ [\<lparr>EnvVar_Name = ''LOG_LEVEL'', EnvVar_Value = ''debug'', EnvVar_ValueFrom = None\<rparr>,
        \<lparr>EnvVar_Name = ''AGENT_NAME'', EnvVar_Value = agentName, EnvVar_ValueFrom = None\<rparr>,
        fieldRefEnv ''AGENT_POD_NAME'' ''metadata.name'',
        fieldRefEnv ''AGENT_NAMESPACE'' ''metadata.namespace'',
        \<lparr>EnvVar_Name = ''APP_PORT'',
         EnvVar_Value = Itoa (uint (ContainerPortNumber ata)), EnvVar_ValueFrom = None\<rparr>]
     @ (if length (VolumeMounts appCn) > 0
        then [\<lparr>EnvVar_Name = ''APP_MOUNTS'', EnvVar_Value = telAppMountPoint,
                EnvVar_ValueFrom = None\<rparr>,
              \<lparr>EnvVar_Name = envPrefix @ ''TELEPRESENCE_MOUNTS'',
               EnvVar_Value = strings_Join (map MountPath (VolumeMounts appCn)) '':'',
               EnvVar_ValueFrom = None\<rparr>]
        else [])
     @ [\<lparr>EnvVar_Name = ''MANAGER_HOST'',
         EnvVar_Value = managerAppName pkg @ ''.'' @ managerNamespace pkg,
         EnvVar_ValueFrom = None\<rparr>]"

definition agentVolumeMounts :: "VolumeMount list \<Rightarrow> VolumeMount list" where
  "agentVolumeMounts mounts =
     map (\<lambda>mount. mount\<lparr>MountPath := filepath_Join [telAppMountPoint, MountPath mount]\<rparr>)
       mounts"

text \<open>The container literal that \<open>Do\<close> appends.\<close>

definition agentContainer ::
  "pkgVars \<Rightarrow> addTrafficAgentAction \<Rightarrow> string \<Rightarrow> Container \<Rightarrow> Container" where
  "agentContainer pkg ata depName appCn =
     \<lparr>Cn_Name = agentContainerName,
      Image = ImageName ata,
      Args = [''agent''],
      Cn_Ports = [\<lparr>CP_Name = ContainerPortName ata, CP_Protocol = ContainerPortProto ata,
                   CP_ContainerPort = 9900, CP_rest = []\<rparr>],
      Env = agentEnvironment pkg ata depName appCn,
      EnvFrom = agentEnvFrom (EnvFrom appCn),
      VolumeMounts = agentVolumeMounts (VolumeMounts appCn),
      LivenessProbe = None,
      ReadinessProbe =
        Some \<lparr>Exec = Some [''/bin/stat'', ''/tmp/agent/ready''], HTTPGet = None,
              TCPSocket = None, Probe_rest = []\<rparr>,
      StartupProbe = None,
      Cn_rest = []\<rparr>"

definition addTrafficAgent_Do ::
  "pkgVars \<Rightarrow> addTrafficAgentAction \<Rightarrow> Deployment \<Rightarrow> error option \<times> Deployment" where
  "addTrafficAgent_Do pkg ata dep =
     (case appContainer ata dep of
        None \<Rightarrow> (Some (UnableToFindAppContainer (containerName ata) (Dep_Name dep)), dep)
      | Some appCn \<Rightarrow>
          (None, dep\<lparr>Containers :=
                       Containers dep @ [agentContainer pkg ata (Dep_Name dep) appCn]\<rparr>))"

definition addTrafficAgent_IsDone :: "addTrafficAgentAction \<Rightarrow> Deployment \<Rightarrow> bool" where
  "addTrafficAgent_IsDone ata dep =
     (firstIndex (\<lambda>cn. Cn_Name cn = agentContainerName) (Containers dep) \<noteq> None)"

text \<open>
  \<open>Undo\<close>: at the first container with the agent's name, the tail is copied one
  place down and the slice is cut by one; with no such container the loop ends and
  nil is returned all the same.
\<close>

definition addTrafficAgent_Undo ::
  "addTrafficAgentAction \<Rightarrow> Deployment \<Rightarrow> error option \<times> Deployment" where
  "addTrafficAgent_Undo ata dep =
     (case firstIndex (\<lambda>cn. Cn_Name cn = agentContainerName) (Containers dep) of
        None \<Rightarrow> (None, dep)
      | Some i \<Rightarrow>
          (None, dep\<lparr>Containers :=
                       take i (Containers dep) @ drop (Suc i) (Containers dep)\<rparr>))"

section \<open>hideContainerPortAction\<close>

record hideContainerPortAction =
  ContainerName :: string
  HCP_PortName :: string
  HiddenName :: string

text \<open>
  The two nested loops of \<open>getPort\<close>; the pointers \<open>cn\<close> and \<open>p\<close> are the index
  of the container and the index of the port in it.
\<close>

fun getPort_loop :: "string \<Rightarrow> string \<Rightarrow> Container list \<Rightarrow> (nat \<times> nat) option" where
  "getPort_loop cname name [] = None"
| "getPort_loop cname name (cn # cns) =
     (if Cn_Name cn \<noteq> cname
      then map_option (\<lambda>(i, pn). (Suc i, pn)) (getPort_loop cname name cns)
      else (case firstIndex (\<lambda>p. CP_Name p = name) (Cn_Ports cn) of
              Some pn \<Rightarrow> Some (0, pn)
            | None \<Rightarrow> map_option (\<lambda>(i, pn). (Suc i, pn)) (getPort_loop cname name cns)))"

definition hideContainerPort_getPort ::
  "hideContainerPortAction \<Rightarrow> Deployment \<Rightarrow> string \<Rightarrow> error + nat \<times> nat" where
  "hideContainerPort_getPort hcp dep name =
     (case getPort_loop (ContainerName hcp) name (Containers dep) of
        Some ip \<Rightarrow> Inr ip
      | None \<Rightarrow>
          Inl (UnableToLocatePort (HCP_PortName hcp) (ContainerName hcp) (Dep_Name dep)))"

text \<open>
  \<open>swapPortName\<close>: the test on a probe's port reads \<open>StrVal\<close> only, whatever the
  \<open>Type\<close>, and writes \<open>StrVal\<close> only.
\<close>

definition swapStrVal :: "string \<Rightarrow> string \<Rightarrow> IntOrString \<Rightarrow> IntOrString" where
  "swapStrVal from to port = (if StrVal port = from then port\<lparr>StrVal := to\<rparr> else port)"

definition swapProbe :: "string \<Rightarrow> string \<Rightarrow> Probe \<Rightarrow> Probe" where
  "swapProbe from to probe =
     probe\<lparr>HTTPGet :=
             map_option (\<lambda>h. h\<lparr>HTTPGet_Port := swapStrVal from to (HTTPGet_Port h)\<rparr>)
               (HTTPGet probe),
           TCPSocket :=
             map_option (\<lambda>t. t\<lparr>TCPSocket_Port := swapStrVal from to (TCPSocket_Port t)\<rparr>)
               (TCPSocket probe)\<rparr>"

definition swapPortName :: "Container \<Rightarrow> nat \<Rightarrow> string \<Rightarrow> string \<Rightarrow> Container" where
  "swapPortName cn pn from to =
     cn\<lparr>LivenessProbe := map_option (swapProbe from to) (LivenessProbe cn),
        ReadinessProbe := map_option (swapProbe from to) (ReadinessProbe cn),
        StartupProbe := map_option (swapProbe from to) (StartupProbe cn),
        Cn_Ports := (Cn_Ports cn)[pn := (Cn_Ports cn ! pn)\<lparr>CP_Name := to\<rparr>]\<rparr>"

definition swapInDeployment ::
  "Deployment \<Rightarrow> nat \<times> nat \<Rightarrow> string \<Rightarrow> string \<Rightarrow> Deployment" where
  "swapInDeployment dep ip from to =
     (case ip of (i, pn) \<Rightarrow>
        dep\<lparr>Containers :=
              (Containers dep)[i := swapPortName (Containers dep ! i) pn from to]\<rparr>)"

text \<open>\<open>Do\<close> stores the hidden name in the action itself, so the action is returned too.\<close>

definition hideContainerPort_Do ::
  "hideContainerPortAction \<Rightarrow> Deployment
     \<Rightarrow> error option \<times> hideContainerPortAction \<times> Deployment" where
  "hideContainerPort_Do hcp dep =
     (case hideContainerPort_getPort hcp dep (HCP_PortName hcp) of
        Inl err \<Rightarrow> (Some err, hcp, dep)
      | Inr (i, pn) \<Rightarrow>
          (let hcp' = hcp\<lparr>HiddenName :=
                            ''tel2mv-'' @ CP_Name (Cn_Ports (Containers dep ! i) ! pn)\<rparr>
           in (None, hcp',
               swapInDeployment dep (i, pn) (HCP_PortName hcp') (HiddenName hcp'))))"

definition hideContainerPort_IsDone :: "hideContainerPortAction \<Rightarrow> Deployment \<Rightarrow> bool" where
  "hideContainerPort_IsDone hcp dep =
     (case hideContainerPort_getPort hcp dep (HiddenName hcp) of
        Inl err \<Rightarrow> False
      | Inr ip \<Rightarrow> True)"

definition hideContainerPort_Undo ::
  "hideContainerPortAction \<Rightarrow> Deployment \<Rightarrow> error option \<times> Deployment" where
  "hideContainerPort_Undo hcp dep =
     (case hideContainerPort_getPort hcp dep (HiddenName hcp) of
        Inl err \<Rightarrow> (Some err, dep)
      | Inr ip \<Rightarrow> (None, swapInDeployment dep ip (HiddenName hcp) (HCP_PortName hcp)))"

section \<open>The action interface and the multi-actions\<close>

text \<open>
  A value of the interface \<open>action\<close> is its methods with their receiver.  The
  receivers are pointers into the plan (\<open>s.MakePortSymbolic\<close>, ...), and an action
  may write to its receiver, so the state a method works on is the plan together
  with the object.
\<close>

record 'st action =
  Do :: "'st \<Rightarrow> error option \<times> 'st"
  Undo :: "'st \<Rightarrow> error option \<times> 'st"
  IsDone :: "'st \<Rightarrow> bool"

fun doActions :: "'st action list \<Rightarrow> 'st \<Rightarrow> error option \<times> 'st" where
  "doActions [] st = (None, st)"
| "doActions (a # acts) st =
     (case Do a st of
        (Some err, st') \<Rightarrow> (Some err, st')
      | (None, st') \<Rightarrow> doActions acts st')"

fun isDoneActions :: "'st action list \<Rightarrow> 'st \<Rightarrow> bool" where
  "isDoneActions [] st = True"
| "isDoneActions (a # acts) st = (if \<not> IsDone a st then False else isDoneActions acts st)"

text \<open>
  \<open>for i := len(actions) - 1; i >= 0; i--\<close>: the second argument of the loop is
  \<open>i + 1\<close>.
\<close>

fun undoActions_loop :: "'st action list \<Rightarrow> nat \<Rightarrow> 'st \<Rightarrow> error option \<times> 'st" where
  "undoActions_loop actions 0 st = (None, st)"
| "undoActions_loop actions (Suc i) st =
     (case Undo (actions ! i) st of
        (Some err, st') \<Rightarrow> (Some err, st')
      | (None, st') \<Rightarrow> undoActions_loop actions i st')"

definition undoActions :: "'st action list \<Rightarrow> 'st \<Rightarrow> error option \<times> 'st" where
  "undoActions actions st = undoActions_loop actions (length actions) st"

subsection \<open>svcActions\<close>

record svcActions =
  SvcActions_Version :: string
  MakePortSymbolic :: "makePortSymbolicAction option"
  AddSymbolicPort :: "addSymbolicPortAction option"

text \<open>
  A method called through a pointer field of the plan.  \<open>Actions\<close> lists the
  non-nil fields only, so the nil case is never reached from there.
\<close>

definition viaField ::
  "('p \<Rightarrow> 'a option) \<Rightarrow> ('a \<Rightarrow> 'o \<Rightarrow> error option \<times> 'o) \<Rightarrow> 'p \<times> 'o
     \<Rightarrow> error option \<times> 'p \<times> 'o" where
  "viaField field f st =
     (case st of (plan, obj) \<Rightarrow>
        (case field plan of
           None \<Rightarrow> (Some NilAction, plan, obj)
         | Some a \<Rightarrow> (case f a obj of (err, obj') \<Rightarrow> (err, plan, obj'))))"

definition isDoneViaField ::
  "('p \<Rightarrow> 'a option) \<Rightarrow> ('a \<Rightarrow> 'o \<Rightarrow> bool) \<Rightarrow> 'p \<times> 'o \<Rightarrow> bool" where
  "isDoneViaField field f st =
     (case st of (plan, obj) \<Rightarrow>
        (case field plan of None \<Rightarrow> False | Some a \<Rightarrow> f a obj))"

definition MakePortSymbolic_action :: "(svcActions \<times> Service) action" where
  "MakePortSymbolic_action =
     \<lparr>Do = viaField MakePortSymbolic makePortSymbolic_Do,
      Undo = viaField MakePortSymbolic makePortSymbolic_Undo,
      IsDone = isDoneViaField MakePortSymbolic makePortSymbolic_IsDone\<rparr>"

definition AddSymbolicPort_action :: "(svcActions \<times> Service) action" where
  "AddSymbolicPort_action =
     \<lparr>Do = viaField AddSymbolicPort addSymbolicPort_Do,
      Undo = viaField AddSymbolicPort addSymbolicPort_Undo,
      IsDone = isDoneViaField AddSymbolicPort addSymbolicPort_IsDone\<rparr>"

definition svcActions_Actions :: "svcActions \<Rightarrow> (svcActions \<times> Service) action list" where
  "svcActions_Actions s =
     (if MakePortSymbolic s \<noteq> None then [MakePortSymbolic_action] else [])
     @ (if AddSymbolicPort s \<noteq> None then [AddSymbolicPort_action] else [])"

definition svcActions_Do ::
  "svcActions \<times> Service \<Rightarrow> error option \<times> svcActions \<times> Service" where
  "svcActions_Do st = doActions (svcActions_Actions (fst st)) st"

definition svcActions_IsDone :: "svcActions \<times> Service \<Rightarrow> bool" where
  "svcActions_IsDone st = isDoneActions (svcActions_Actions (fst st)) st"

definition svcActions_Undo ::
  "svcActions \<times> Service \<Rightarrow> error option \<times> svcActions \<times> Service" where
  "svcActions_Undo st = undoActions (svcActions_Actions (fst st)) st"

subsection \<open>deploymentActions\<close>

record deploymentActions =
  DepActions_Version :: string
  ReferencedService :: string
  ReferencedServicePortName :: string
  HideContainerPort :: "hideContainerPortAction option"
  AddTrafficAgent :: "addTrafficAgentAction option"

definition HideContainerPort_action :: "(deploymentActions \<times> Deployment) action" where
  "HideContainerPort_action =
     \<lparr>Do = (\<lambda>st. case st of (d, dep) \<Rightarrow>
              (case HideContainerPort d of
                 None \<Rightarrow> (Some NilAction, d, dep)
               | Some hcp \<Rightarrow>
                   (case hideContainerPort_Do hcp dep of
                      (err, hcp', dep') \<Rightarrow> (err, d\<lparr>HideContainerPort := Some hcp'\<rparr>, dep')))),
      Undo = viaField HideContainerPort hideContainerPort_Undo,
      IsDone = isDoneViaField HideContainerPort hideContainerPort_IsDone\<rparr>"

definition AddTrafficAgent_action ::
  "pkgVars \<Rightarrow> (deploymentActions \<times> Deployment) action" where
  "AddTrafficAgent_action pkg =
     \<lparr>Do = viaField AddTrafficAgent (addTrafficAgent_Do pkg),
      Undo = viaField AddTrafficAgent addTrafficAgent_Undo,
      IsDone = isDoneViaField AddTrafficAgent addTrafficAgent_IsDone\<rparr>"

definition deploymentActions_Actions ::
  "pkgVars \<Rightarrow> deploymentActions \<Rightarrow> (deploymentActions \<times> Deployment) action list" where
  "deploymentActions_Actions pkg d =
     (if HideContainerPort d \<noteq> None then [HideContainerPort_action] else [])
     @ (if AddTrafficAgent d \<noteq> None then [AddTrafficAgent_action pkg] else [])"

definition deploymentActions_Do ::
  "pkgVars \<Rightarrow> deploymentActions \<times> Deployment
     \<Rightarrow> error option \<times> deploymentActions \<times> Deployment" where
  "deploymentActions_Do pkg st = doActions (deploymentActions_Actions pkg (fst st)) st"

definition deploymentActions_IsDone ::
  "pkgVars \<Rightarrow> deploymentActions \<times> Deployment \<Rightarrow> bool" where
  "deploymentActions_IsDone pkg st = isDoneActions (deploymentActions_Actions pkg (fst st)) st"

definition deploymentActions_Undo ::
  "pkgVars \<Rightarrow> deploymentActions \<times> Deployment
     \<Rightarrow> error option \<times> deploymentActions \<times> Deployment" where
  "deploymentActions_Undo pkg st = undoActions (deploymentActions_Actions pkg (fst st)) st"

section \<open>The persisted form of a workload plan\<close>

text \<open>
  \<open>String()\<close> is \<open>json.Marshal\<close> of the struct: one member per exported field, in
  the order of declaration, under the name of the field's \<open>json\<close> tag, or under
  the field's Go name where it has no tag; an \<open>omitempty\<close> field is left out when
  it is the empty string or a nil pointer; an unexported field is never written.
\<close>

datatype json = JString string | JNumber int | JObject "(string \<times> json) list"

definition marshal_hideContainerPortAction :: "hideContainerPortAction \<Rightarrow> json" where
  "marshal_hideContainerPortAction hcp =
     JObject [(''container_name'', JString (ContainerName hcp)),
              (''port_name'', JString (HCP_PortName hcp)),
              (''hidden_name'', JString (HiddenName hcp))]"

definition marshal_addTrafficAgentAction :: "addTrafficAgentAction \<Rightarrow> json" where
  "marshal_addTrafficAgentAction ata =
     JObject [(''container_port_name'', JString (ContainerPortName ata)),
              (''container_port_proto'', JString (ContainerPortProto ata)),
              (''app_port'', JNumber (uint (ContainerPortNumber ata))),
              (''image_name'', JString (ImageName ata))]"

definition marshal_deploymentActions :: "deploymentActions \<Rightarrow> json" where
  "marshal_deploymentActions d =
     JObject
       ([(''version'', JString (DepActions_Version d)),
         (''ReferencedService'', JString (ReferencedService d))]
        @ (if ReferencedServicePortName d = [] then []
           else [(''referenced_service_port_name'', JString (ReferencedServicePortName d))])
        @ (case HideContainerPort d of
             None \<Rightarrow> []
           | Some hcp \<Rightarrow> [(''hide_container_port'', marshal_hideContainerPortAction hcp)])
        @ (case AddTrafficAgent d of
             None \<Rightarrow> []
           | Some ata \<Rightarrow> [(''add_traffic_agent'', marshal_addTrafficAgentAction ata)]))"

text \<open>The member names of an object, and the member under a name.\<close>

fun jsonKeys :: "json \<Rightarrow> string list" where
  "jsonKeys (JObject ms) = map fst ms"
| "jsonKeys (JString s) = []"
| "jsonKeys (JNumber n) = []"

fun jsonMember :: "json \<Rightarrow> string \<Rightarrow> json option" where
  "jsonMember (JObject ms) k = map_of ms k"
| "jsonMember (JString s) k = None"
| "jsonMember (JNumber n) k = None"

section \<open>Preconditions of the round trip\<close>

text \<open>
  A legal service: the names of its ports are distinct, and a numeric target port
  carries no string (as after decoding).
\<close>

definition legalService :: "Service \<Rightarrow> bool" where
  "legalService svc \<longleftrightarrow>
     distinct (map SP_Name (Svc_Ports svc))
     \<and> (\<forall>p\<in>set (Svc_Ports svc).
           Type (SP_TargetPort p) = intstr_Int \<longrightarrow> StrVal (SP_TargetPort p) = [])"

text \<open>
  A legal service plan: at most one of the two actions is set, and an
  \<open>addSymbolicPortAction\<close> carries the name of the port that its \<open>Do\<close> selects.
\<close>

definition legalSvcPlan :: "svcActions \<Rightarrow> Service \<Rightarrow> bool" where
  "legalSvcPlan s svc \<longleftrightarrow>
     (MakePortSymbolic s = None \<or> AddSymbolicPort s = None)
     \<and> (case AddSymbolicPort s of
          None \<Rightarrow> True
        | Some m \<Rightarrow>
            (case addSymbolicPort_getPort m svc (ucast (TargetPort m)) of
               Inl err \<Rightarrow> True
             | Inr i \<Rightarrow> SP_Name (Svc_Ports svc ! i) = PortName m))"

definition noAgentContainer :: "Deployment \<Rightarrow> bool" where
  "noAgentContainer dep \<longleftrightarrow> agentContainerName \<notin> set (map Cn_Name (Containers dep))"

text \<open>The ports that the probes of a container refer to.\<close>

definition probePorts :: "Probe option \<Rightarrow> IntOrString list" where
  "probePorts probe =
     (case probe of
        None \<Rightarrow> []
      | Some p \<Rightarrow>
          (case HTTPGet p of None \<Rightarrow> [] | Some h \<Rightarrow> [HTTPGet_Port h])
          @ (case TCPSocket p of None \<Rightarrow> [] | Some t \<Rightarrow> [TCPSocket_Port t]))"

definition containerProbePorts :: "Container \<Rightarrow> IntOrString list" where
  "containerProbePorts cn =
     probePorts (LivenessProbe cn) @ probePorts (ReadinessProbe cn)
     @ probePorts (StartupProbe cn)"

text \<open>
  The hidden name that \<open>Do\<close> will choose is not in use: no port and no probe of a
  container with the action's container name has it already.
\<close>

definition hiddenNameUnused :: "hideContainerPortAction \<Rightarrow> Deployment \<Rightarrow> bool" where
  "hiddenNameUnused hcp dep \<longleftrightarrow>
     (\<forall>cn\<in>set (Containers dep).
        Cn_Name cn = ContainerName hcp \<longrightarrow>
          ''tel2mv-'' @ HCP_PortName hcp \<notin> set (map CP_Name (Cn_Ports cn))
          \<and> ''tel2mv-'' @ HCP_PortName hcp \<notin> set (map StrVal (containerProbePorts cn)))"

definition hiddenNameFresh :: "deploymentActions \<Rightarrow> Deployment \<Rightarrow> bool" where
  "hiddenNameFresh d dep \<longleftrightarrow>
     (case HideContainerPort d of None \<Rightarrow> True | Some hcp \<Rightarrow> hiddenNameUnused hcp dep)"

section \<open>Example objects and plans\<close>

text \<open>
  The service and deployment \<open>hello\<close> of the spec's first scenario, with variations,
  and the plans applied to them.
\<close>

definition pkgExample :: pkgVars where
  "pkgExample = \<lparr>managerAppName = ''traffic-manager'', managerNamespace = ''ambassador''\<rparr>"

definition svcPort :: "string \<Rightarrow> 32 word \<Rightarrow> IntOrString \<Rightarrow> ServicePort" where
  "svcPort name port target =
     \<lparr>SP_Name = name, SP_Port = port, SP_TargetPort = target, SP_rest = ''TCP''\<rparr>"

definition svcNumeric :: Service where
  "svcNumeric = \<lparr>Svc_Name = ''hello'', Svc_Ports = [svcPort ''http'' 80 (FromInt 8080)],
                  Svc_rest = []\<rparr>"

definition svcUnset :: Service where
  "svcUnset = \<lparr>Svc_Name = ''hello'', Svc_Ports = [svcPort ''http'' 8080 IntOrString_zero],
                Svc_rest = []\<rparr>"

definition svcSymbolic :: Service where
  "svcSymbolic = \<lparr>Svc_Name = ''hello'', Svc_Ports = [svcPort ''http'' 80 (FromString ''tx-8080'')],
                   Svc_rest = []\<rparr>"

definition svcOtherSymbolic :: Service where
  "svcOtherSymbolic =
     \<lparr>Svc_Name = ''hello'', Svc_Ports = [svcPort ''other'' 80 (FromString ''tx-8080'')],
      Svc_rest = []\<rparr>"

definition mpsHttp :: makePortSymbolicAction where
  "mpsHttp = \<lparr>PortName = ''http'', TargetPort = 8080, SymbolicName = ''tx-8080''\<rparr>"

definition planMakeSymbolic :: svcActions where
  "planMakeSymbolic =
     \<lparr>SvcActions_Version = ''2.4.0'', MakePortSymbolic = Some mpsHttp, AddSymbolicPort = None\<rparr>"

definition planAddSymbolic :: svcActions where
  "planAddSymbolic =
     \<lparr>SvcActions_Version = ''2.4.0'', MakePortSymbolic = None, AddSymbolicPort = Some mpsHttp\<rparr>"

definition cnPort :: "string \<Rightarrow> 32 word \<Rightarrow> ContainerPort" where
  "cnPort name number =
     \<lparr>CP_Name = name, CP_Protocol = ''TCP'', CP_ContainerPort = number, CP_rest = []\<rparr>"

definition httpProbe :: "IntOrString \<Rightarrow> Probe" where
  "httpProbe port =
     \<lparr>Exec = None, HTTPGet = Some \<lparr>HTTPGet_Port = port, HTTPGet_rest = ''/healthz''\<rparr>,
      TCPSocket = None, Probe_rest = []\<rparr>"

definition tcpProbe :: "IntOrString \<Rightarrow> Probe" where
  "tcpProbe port =
     \<lparr>Exec = None, HTTPGet = None,
      TCPSocket = Some \<lparr>TCPSocket_Port = port, TCPSocket_rest = []\<rparr>, Probe_rest = []\<rparr>"

definition appWith :: "ContainerPort list \<Rightarrow> VolumeMount list \<Rightarrow> Container" where
  "appWith ports mounts =
     \<lparr>Cn_Name = ''hello'', Image = ''hello:1'', Args = [],
      Cn_Ports = ports,
      Env = [\<lparr>EnvVar_Name = ''GREETING'', EnvVar_Value = ''hi'', EnvVar_ValueFrom = None\<rparr>],
      EnvFrom = [],
      VolumeMounts = mounts,
      LivenessProbe = Some (httpProbe (FromString ''http'')),
      ReadinessProbe = Some (tcpProbe (FromInt 8080)),
      StartupProbe = None,
      Cn_rest = []\<rparr>"

definition appHello :: Container where
  "appHello = appWith [cnPort ''http'' 8080] [\<lparr>MountPath = ''/var/data'', VM_rest = ''data''\<rparr>]"

definition depHello :: Deployment where
  "depHello = \<lparr>Dep_Name = ''hello'', Containers = [appHello], Dep_rest = []\<rparr>"

text \<open>A port already named like the hidden name, before the port to hide.\<close>

definition depCollide :: Deployment where
  "depCollide =
     \<lparr>Dep_Name = ''hello'',
      Containers = [appWith [cnPort ''tel2mv-http'' 9090, cnPort ''http'' 8080] []],
      Dep_rest = []\<rparr>"

text \<open>A port whose name has twelve characters.\<close>

definition depMetrics :: Deployment where
  "depMetrics =
     \<lparr>Dep_Name = ''hello'', Containers = [appWith [cnPort ''http-metrics'' 8080] []],
      Dep_rest = []\<rparr>"

definition hcpHttp :: hideContainerPortAction where
  "hcpHttp = \<lparr>ContainerName = ''hello'', HCP_PortName = ''http'', HiddenName = []\<rparr>"

definition hcpMetrics :: hideContainerPortAction where
  "hcpMetrics = \<lparr>ContainerName = ''hello'', HCP_PortName = ''http-metrics'', HiddenName = []\<rparr>"

definition ataHello :: addTrafficAgentAction where
  "ataHello =
     \<lparr>ContainerPortName = ''http'', ContainerPortProto = ''TCP'', ContainerPortNumber = 8080,
      ImageName = ''docker.io/datawire/tel2:2.4.0'', containerName = ''hello''\<rparr>"

definition planAgentOnly :: deploymentActions where
  "planAgentOnly =
     \<lparr>DepActions_Version = ''2.4.0'', ReferencedService = ''hello'',
      ReferencedServicePortName = ''http'', HideContainerPort = None,
      AddTrafficAgent = Some ataHello\<rparr>"

definition planHideAndAgent :: deploymentActions where
  "planHideAndAgent =
     \<lparr>DepActions_Version = ''2.4.0'', ReferencedService = ''hello'',
      ReferencedServicePortName = ''http'', HideContainerPort = Some hcpHttp,
      AddTrafficAgent = Some ataHello\<rparr>"

text \<open>The action of \<open>mpsHttp\<close> under a port name that no port of the service has.\<close>

definition mpsWeb :: addSymbolicPortAction where
  "mpsWeb = mpsHttp\<lparr>PortName := ''web''\<rparr>"

text \<open>An agent action whose app container does not exist.\<close>

definition ataAbsent :: addTrafficAgentAction where
  "ataAbsent = ataHello\<lparr>containerName := ''absent''\<rparr>"

definition planHideThenFail :: deploymentActions where
  "planHideThenFail = planHideAndAgent\<lparr>AddTrafficAgent := Some ataAbsent\<rparr>"

definition planHideMetrics :: deploymentActions where
  "planHideMetrics = planHideAndAgent\<lparr>HideContainerPort := Some hcpMetrics\<rparr>"

lemmas example_defs =
  pkgExample_def svcPort_def svcNumeric_def svcUnset_def svcSymbolic_def svcOtherSymbolic_def
  mpsHttp_def planMakeSymbolic_def planAddSymbolic_def cnPort_def httpProbe_def tcpProbe_def
  appWith_def appHello_def depHello_def depCollide_def depMetrics_def hcpHttp_def
  hcpMetrics_def ataHello_def planAgentOnly_def planHideAndAgent_def ataAbsent_def
  planHideThenFail_def planHideMetrics_def mpsWeb_def

section \<open>The first match of a loop\<close>

lemma firstIndex_None: "firstIndex P xs = None \<longleftrightarrow> (\<forall>x\<in>set xs. \<not> P x)"
  by (induction xs) auto

lemma firstIndex_Some:
  "firstIndex P xs = Some i \<Longrightarrow> i < length xs \<and> P (xs ! i) \<and> (\<forall>j<i. \<not> P (xs ! j))"
proof (induction xs arbitrary: i)
  case Nil
  then show ?case by simp
next
  case (Cons x xs)
  show ?case
  proof (cases "P x")
    case True
    with Cons.prems show ?thesis by simp
  next
    case False
    with Cons.prems obtain k where k: "firstIndex P xs = Some k" "i = Suc k"
      by auto
    from Cons.IH [OF k(1)] False k(2) show ?thesis
      by (auto simp: nth_Cons split: nat.splits)
  qed
qed

lemma firstIndex_SomeI:
  "i < length xs \<Longrightarrow> P (xs ! i) \<Longrightarrow> \<forall>j<i. \<not> P (xs ! j) \<Longrightarrow> firstIndex P xs = Some i"
proof (induction xs arbitrary: i)
  case Nil
  then show ?case by simp
next
  case (Cons x xs)
  show ?case
  proof (cases i)
    case 0
    with Cons.prems show ?thesis by simp
  next
    case (Suc k)
    with Cons.prems have "\<not> P x" by auto
    moreover have "firstIndex P xs = Some k"
      using Cons.prems Suc by (intro Cons.IH) auto
    ultimately show ?thesis using Suc by simp
  qed
qed

section \<open>makePortSymbolicAction.IsDone\<close>

text \<open>
  C6 (amended).  \<open>IsDone\<close> goes through \<open>getPort\<close>, which compares the port's name
  as well: it returns true if and only if some port of the service is named
  \<open>PortName\<close> and has the string \<open>SymbolicName\<close> as its target port.
\<close>

theorem makePortSymbolic_IsDone_iff:
  "makePortSymbolic_IsDone m svc \<longleftrightarrow>
     (\<exists>p\<in>set (Svc_Ports svc).
         SP_Name p = PortName m \<and> SP_TargetPort p = FromString (SymbolicName m))"
proof -
  have "makePortSymbolic_IsDone m svc \<longleftrightarrow>
     firstIndex (\<lambda>p. SP_TargetPort p = FromString (SymbolicName m) \<and> SP_Name p = PortName m)
       (Svc_Ports svc) \<noteq> None"
    by (simp add: makePortSymbolic_IsDone_def makePortSymbolic_getPort_def split: option.splits)
  then show ?thesis
    by (auto simp: firstIndex_None)
qed

theorem makePortSymbolic_IsDone_iff_witness:
  "makePortSymbolic_IsDone mpsHttp svcSymbolic \<and> \<not> makePortSymbolic_IsDone mpsHttp svcNumeric"
  using makePortSymbolic_IsDone_iff [of mpsHttp svcSymbolic]
    makePortSymbolic_IsDone_iff [of mpsHttp svcNumeric]
  by (simp add: mpsHttp_def svcSymbolic_def svcNumeric_def svcPort_def FromString_def FromInt_def)

text \<open>
  The claim as stated fails: a port named \<open>other\<close> has the symbolic name as its
  target port, and \<open>IsDone\<close> of the action for the port \<open>http\<close> is false.
\<close>

theorem makePortSymbolic_IsDone_other_port:
  "(\<exists>p\<in>set (Svc_Ports svcOtherSymbolic). SP_TargetPort p = FromString (SymbolicName mpsHttp))
   \<and> \<not> makePortSymbolic_IsDone mpsHttp svcOtherSymbolic"
  by (simp add: makePortSymbolic_IsDone_def makePortSymbolic_getPort_def mpsHttp_def
      svcOtherSymbolic_def svcPort_def)

section \<open>addTrafficAgentAction\<close>

lemma agentContainer_name [simp]:
  "Cn_Name (agentContainer pkg ata n appCn) = agentContainerName"
  by (simp add: agentContainer_def)

text \<open>
  C10.  When the app container is found, \<open>Do\<close> appends an agent container whose
  environment holds \<open>TELEPRESENCE_CONTAINER\<close>, without the prefix, with the app
  container's name as its value, and, when the app container has volume mounts,
  \<open>APP_MOUNTS\<close>, without the prefix, with the mount root as its value.
\<close>

theorem agent_env_container_and_mounts:
  assumes "appContainer ata dep = Some appCn"
  shows "\<exists>dep' agent. addTrafficAgent_Do pkg ata dep = (None, dep')
     \<and> Containers dep' = Containers dep @ [agent]
     \<and> \<lparr>EnvVar_Name = ''TELEPRESENCE_CONTAINER'', EnvVar_Value = Cn_Name appCn,
         EnvVar_ValueFrom = None\<rparr> \<in> set (Env agent)
     \<and> (VolumeMounts appCn \<noteq> [] \<longrightarrow>
          \<lparr>EnvVar_Name = ''APP_MOUNTS'', EnvVar_Value = ''/tel_app_mounts'',
           EnvVar_ValueFrom = None\<rparr> \<in> set (Env agent))"
  using assms
  by (simp add: addTrafficAgent_Do_def agentContainer_def agentEnvironment_def
      appEnvironment_def telAppMountPoint_def)

theorem agent_env_container_and_mounts_witness:
  "appContainer ataHello depHello = Some appHello
   \<and> VolumeMounts appHello \<noteq> []
   \<and> (\<exists>dep' agent. addTrafficAgent_Do pkgExample ataHello depHello = (None, dep')
        \<and> Containers dep' = Containers depHello @ [agent]
        \<and> \<lparr>EnvVar_Name = ''TELEPRESENCE_CONTAINER'', EnvVar_Value = ''hello'',
            EnvVar_ValueFrom = None\<rparr> \<in> set (Env agent)
        \<and> \<lparr>EnvVar_Name = ''APP_MOUNTS'', EnvVar_Value = ''/tel_app_mounts'',
            EnvVar_ValueFrom = None\<rparr> \<in> set (Env agent))"
proof -
  have a: "appContainer ataHello depHello = Some appHello"
    by (simp add: appContainer_def ataHello_def depHello_def appHello_def appWith_def)
  have b: "VolumeMounts appHello \<noteq> []" "Cn_Name appHello = ''hello''"
    by (simp_all add: appHello_def appWith_def)
  from agent_env_container_and_mounts [OF a, of pkgExample] a b show ?thesis by simp
qed

text \<open>
  C9.  \<open>Do\<close> either fails and leaves the workload as it was, or appends one
  container with the agent's name after the containers that were there, which stay
  as they were.  \<open>Undo\<close> returns no error; it leaves the workload as it was when no
  container has the agent's name, and otherwise takes out the first container with
  that name and keeps the others in their order.
\<close>

theorem addTrafficAgent_frame:
  "(case addTrafficAgent_Do pkg ata dep of
      (None, dep') \<Rightarrow>
        (\<exists>agent. Cn_Name agent = agentContainerName
           \<and> dep' = dep\<lparr>Containers := Containers dep @ [agent]\<rparr>)
    | (Some err, dep') \<Rightarrow> dep' = dep)
   \<and> (case addTrafficAgent_Undo ata dep of
        (err, dep') \<Rightarrow>
          err = None
          \<and> ((\<forall>cn\<in>set (Containers dep). Cn_Name cn \<noteq> agentContainerName) \<and> dep' = dep
             \<or> (\<exists>pre agent post.
                   Containers dep = pre @ agent # post
                   \<and> Cn_Name agent = agentContainerName
                   \<and> (\<forall>cn\<in>set pre. Cn_Name cn \<noteq> agentContainerName)
                   \<and> dep' = dep\<lparr>Containers := pre @ post\<rparr>)))"
proof -
  have do_part: "(case addTrafficAgent_Do pkg ata dep of
      (None, dep') \<Rightarrow>
        (\<exists>agent. Cn_Name agent = agentContainerName
           \<and> dep' = dep\<lparr>Containers := Containers dep @ [agent]\<rparr>)
    | (Some err, dep') \<Rightarrow> dep' = dep)"
  proof (cases "appContainer ata dep")
    case None
    then show ?thesis by (simp add: addTrafficAgent_Do_def)
  next
    case (Some appCn)
    show ?thesis using Some
      by (simp add: addTrafficAgent_Do_def)
        (rule exI [of _ "agentContainer pkg ata (Dep_Name dep) appCn"], simp)
  qed
  let ?P = "\<lambda>cn. Cn_Name cn = agentContainerName"
  have undo_part: "(case addTrafficAgent_Undo ata dep of
        (err, dep') \<Rightarrow>
          err = None
          \<and> ((\<forall>cn\<in>set (Containers dep). Cn_Name cn \<noteq> agentContainerName) \<and> dep' = dep
             \<or> (\<exists>pre agent post.
                   Containers dep = pre @ agent # post
                   \<and> Cn_Name agent = agentContainerName
                   \<and> (\<forall>cn\<in>set pre. Cn_Name cn \<noteq> agentContainerName)
                   \<and> dep' = dep\<lparr>Containers := pre @ post\<rparr>)))"
  proof (cases "firstIndex ?P (Containers dep)")
    case None
    have "addTrafficAgent_Undo ata dep = (None, dep)"
      using None by (simp add: addTrafficAgent_Undo_def)
    moreover have "\<forall>cn\<in>set (Containers dep). Cn_Name cn \<noteq> agentContainerName"
      using None by (simp add: firstIndex_None)
    ultimately show ?thesis by simp
  next
    case (Some i)
    from firstIndex_Some [OF Some]
    have i: "i < length (Containers dep)" "?P (Containers dep ! i)"
      "\<forall>j<i. \<not> ?P (Containers dep ! j)" by auto
    have split: "Containers dep =
        take i (Containers dep) @ (Containers dep ! i) # drop (Suc i) (Containers dep)"
      using i(1) by (simp add: id_take_nth_drop)
    have pre: "\<forall>cn\<in>set (take i (Containers dep)). Cn_Name cn \<noteq> agentContainerName"
      using i(1,3) by (auto simp: in_set_conv_nth)
    have "addTrafficAgent_Undo ata dep =
        (None, dep\<lparr>Containers := take i (Containers dep) @ drop (Suc i) (Containers dep)\<rparr>)"
      using Some by (simp add: addTrafficAgent_Undo_def)
    moreover have "\<exists>pre agent post.
                   Containers dep = pre @ agent # post
                   \<and> Cn_Name agent = agentContainerName
                   \<and> (\<forall>cn\<in>set pre. Cn_Name cn \<noteq> agentContainerName)
                   \<and> dep\<lparr>Containers := take i (Containers dep) @ drop (Suc i) (Containers dep)\<rparr>
                      = dep\<lparr>Containers := pre @ post\<rparr>"
      using split pre i(2) by blast
    ultimately show ?thesis by simp
  qed
  from do_part undo_part show ?thesis by (rule conjI)
qed

theorem addTrafficAgent_frame_witness:
  "(\<exists>agent. Cn_Name agent = agentContainerName
      \<and> addTrafficAgent_Do pkgExample ataHello depHello
          = (None, depHello\<lparr>Containers := [appHello, agent]\<rparr>))
   \<and> addTrafficAgent_Undo ataHello depHello = (None, depHello)"
proof -
  have a: "appContainer ataHello depHello = Some appHello"
    by (simp add: appContainer_def ataHello_def depHello_def appHello_def appWith_def)
  have b: "\<forall>cn\<in>set (Containers depHello). Cn_Name cn \<noteq> agentContainerName"
    by (simp add: depHello_def appHello_def appWith_def agentContainerName_def)
  have c: "Containers depHello = [appHello]"
    by (simp add: depHello_def)
  have d: "\<And>pre agent post. Containers depHello = pre @ agent # post
     \<Longrightarrow> Cn_Name agent \<noteq> agentContainerName"
    using b by auto
  from addTrafficAgent_frame [where pkg = pkgExample and ata = ataHello and dep = depHello]
    a b c d show ?thesis
    by (auto simp: addTrafficAgent_Do_def split: prod.splits option.splits)
qed

section \<open>Port numbers\<close>

text \<open>\<open>int32(m.TargetPort)\<close>: the value of a \<open>uint16\<close> is kept.\<close>

lemma sint_ucast_16_32: "sint (ucast (t :: 16 word) :: 32 word) = uint t"
proof -
  have "uint t < 2 ^ 16" using uint_bounded [of t] by simp
  then have b: "uint t < 2 ^ 31" by simp
  have "- (2 ^ 31) \<le> (0::int)" by simp
  also have "(0::int) \<le> uint t" by simp
  finally have c: "- (2 ^ 31) \<le> uint t" .
  have "sint (ucast t :: 32 word) = signed_take_bit 31 (uint (ucast t :: 32 word))"
    by (simp add: sint_uint)
  also have "\<dots> = signed_take_bit 31 (uint t)"
    by (simp add: uint_up_ucast is_up)
  also have "\<dots> = uint t"
    by (rule signed_take_bit_int_eq_self [OF c b])
  finally show ?thesis .
qed

lemma eq_ucast_iff: "(w :: 32 word) = ucast (t :: 16 word) \<longleftrightarrow> sint w = uint t"
  by (metis sint_ucast_16_32 word_eq_iff_signed)

section \<open>Multi-actions\<close>

lemma doActions_append:
  "doActions (xs @ ys) st =
     (case doActions xs st of
        (Some err, st') \<Rightarrow> (Some err, st')
      | (None, st') \<Rightarrow> doActions ys st')"
  by (induction xs arbitrary: st) (auto split: prod.splits option.splits)

lemma undoActions_loop_append:
  "n \<le> length xs \<Longrightarrow> undoActions_loop (xs @ ys) n st = undoActions_loop xs n st"
  by (induction n arbitrary: st) (auto simp: nth_append split: prod.splits option.splits)

lemma undoActions_snoc:
  "undoActions (xs @ [a]) st =
     (case Undo a st of
        (Some err, st') \<Rightarrow> (Some err, st')
      | (None, st') \<Rightarrow> undoActions xs st')"
  by (simp add: undoActions_def undoActions_loop_append split: prod.splits option.splits)

lemma undoActions_append:
  "undoActions (xs @ ys) st =
     (case undoActions ys st of
        (Some err, st') \<Rightarrow> (Some err, st')
      | (None, st') \<Rightarrow> undoActions xs st')"
proof (induction ys arbitrary: st rule: rev_induct)
  case Nil
  then show ?case by (simp add: undoActions_def)
next
  case (snoc y ys)
  have "undoActions (xs @ ys @ [y]) st = undoActions ((xs @ ys) @ [y]) st" by simp
  also have "\<dots> = (case Undo y st of
        (Some err, st') \<Rightarrow> (Some err, st')
      | (None, st') \<Rightarrow> undoActions (xs @ ys) st')"
    by (rule undoActions_snoc)
  finally show ?case
    by (simp add: snoc.IH undoActions_snoc split: prod.splits option.splits)
qed

lemma undoActions_Nil [simp]: "undoActions [] st = (None, st)"
  by (simp add: undoActions_def)

lemma undoActions_single [simp]: "undoActions [a] st = Undo a st"
  using undoActions_snoc [of "[]" a st] by (simp split: prod.splits option.splits)

lemma doActions_single [simp]: "doActions [a] st = Do a st"
  by (simp split: prod.splits option.splits)

lemma isDoneActions_all: "isDoneActions xs st \<longleftrightarrow> (\<forall>a\<in>set xs. IsDone a st)"
  by (induction xs) auto

text \<open>
  C7.  For every list of child actions, as \<open>Actions()\<close> of \<open>svcActions\<close> or of
  \<open>deploymentActions\<close> returns it: \<open>Do\<close> runs the children before a child, then
  the child, then those after it, and \<open>Undo\<close> runs those after it first; the first
  error ends the run and is returned with the state as the children run so far
  have left it; \<open>IsDone\<close> holds exactly when it holds for every child.
\<close>

theorem multiAction_composition:
  "doActions [] st = (None, st)
   \<and> doActions (xs @ a # ys) st =
       (case doActions xs st of
          (Some err, st') \<Rightarrow> (Some err, st')
        | (None, st') \<Rightarrow>
            (case Do a st' of
               (Some err, st'') \<Rightarrow> (Some err, st'')
             | (None, st'') \<Rightarrow> doActions ys st''))
   \<and> undoActions [] st = (None, st)
   \<and> undoActions (xs @ a # ys) st =
       (case undoActions ys st of
          (Some err, st') \<Rightarrow> (Some err, st')
        | (None, st') \<Rightarrow>
            (case Undo a st' of
               (Some err, st'') \<Rightarrow> (Some err, st'')
             | (None, st'') \<Rightarrow> undoActions xs st''))
   \<and> (isDoneActions xs st \<longleftrightarrow> (\<forall>b\<in>set xs. IsDone b st))
   \<and> svcActions_Do (s, svc) = doActions (svcActions_Actions s) (s, svc)
   \<and> svcActions_Undo (s, svc) = undoActions (svcActions_Actions s) (s, svc)
   \<and> svcActions_IsDone (s, svc) = isDoneActions (svcActions_Actions s) (s, svc)
   \<and> deploymentActions_Do pkg (d, dep) = doActions (deploymentActions_Actions pkg d) (d, dep)
   \<and> deploymentActions_Undo pkg (d, dep) = undoActions (deploymentActions_Actions pkg d) (d, dep)
   \<and> deploymentActions_IsDone pkg (d, dep)
       = isDoneActions (deploymentActions_Actions pkg d) (d, dep)"
proof -
  have 1: "doActions (xs @ a # ys) st =
       (case doActions xs st of
          (Some err, st') \<Rightarrow> (Some err, st')
        | (None, st') \<Rightarrow>
            (case Do a st' of
               (Some err, st'') \<Rightarrow> (Some err, st'')
             | (None, st'') \<Rightarrow> doActions ys st''))"
    by (simp add: doActions_append split: prod.splits option.splits)
  have "undoActions (xs @ a # ys) st = undoActions ((xs @ [a]) @ ys) st" by simp
  also have "\<dots> = (case undoActions ys st of
          (Some err, st') \<Rightarrow> (Some err, st')
        | (None, st') \<Rightarrow> undoActions (xs @ [a]) st')"
    by (rule undoActions_append)
  finally have 2: "undoActions (xs @ a # ys) st =
       (case undoActions ys st of
          (Some err, st') \<Rightarrow> (Some err, st')
        | (None, st') \<Rightarrow>
            (case Undo a st' of
               (Some err, st'') \<Rightarrow> (Some err, st'')
             | (None, st'') \<Rightarrow> undoActions xs st''))"
    by (simp add: undoActions_snoc split: prod.splits option.splits)
  show ?thesis
    unfolding 1 2
    by (simp add: isDoneActions_all svcActions_Do_def svcActions_Undo_def svcActions_IsDone_def
        deploymentActions_Do_def deploymentActions_Undo_def deploymentActions_IsDone_def)
qed

theorem multiAction_composition_witness:
  "fst (Do HideContainerPort_action (planHideThenFail, depHello)) = None
   \<and> deploymentActions_Do pkgExample (planHideThenFail, depHello)
       = (Some (UnableToFindAppContainer ''absent'' ''hello''),
          snd (Do HideContainerPort_action (planHideThenFail, depHello)))
   \<and> snd (snd (Do HideContainerPort_action (planHideThenFail, depHello))) \<noteq> depHello"
proof -
  have acts: "deploymentActions_Actions pkgExample planHideThenFail
      = [] @ HideContainerPort_action # [AddTrafficAgent_action pkgExample]"
    by (simp add: deploymentActions_Actions_def example_defs)
  have h: "Do HideContainerPort_action (planHideThenFail, depHello)
      = (None, planHideThenFail\<lparr>HideContainerPort := Some (hcpHttp\<lparr>HiddenName := ''tel2mv-http''\<rparr>)\<rparr>,
         depHello\<lparr>Containers :=
           [swapPortName appHello 0 ''http'' ''tel2mv-http'']\<rparr>)"
    by (simp add: HideContainerPort_action_def hideContainerPort_Do_def
        hideContainerPort_getPort_def swapInDeployment_def example_defs)
  have ne: "depHello\<lparr>Containers := [swapPortName appHello 0 ''http'' ''tel2mv-http'']\<rparr> \<noteq> depHello"
    by (simp add: swapPortName_def example_defs)
  have a: "Do (AddTrafficAgent_action pkgExample)
       (planHideThenFail\<lparr>HideContainerPort := Some (hcpHttp\<lparr>HiddenName := ''tel2mv-http''\<rparr>)\<rparr>,
         depHello\<lparr>Containers := [swapPortName appHello 0 ''http'' ''tel2mv-http'']\<rparr>)
     = (Some (UnableToFindAppContainer ''absent'' ''hello''),
        planHideThenFail\<lparr>HideContainerPort := Some (hcpHttp\<lparr>HiddenName := ''tel2mv-http''\<rparr>)\<rparr>,
         depHello\<lparr>Containers := [swapPortName appHello 0 ''http'' ''tel2mv-http'']\<rparr>)"
    by (simp add: AddTrafficAgent_action_def viaField_def addTrafficAgent_Do_def
        appContainer_def swapPortName_def example_defs)
  from multiAction_composition [where xs = "[]" and a = HideContainerPort_action
      and ys = "[AddTrafficAgent_action pkgExample]"
      and st = "(planHideThenFail, depHello)" and pkg = pkgExample
      and d = planHideThenFail and dep = depHello]
  have "deploymentActions_Do pkgExample (planHideThenFail, depHello)
     = (case Do HideContainerPort_action (planHideThenFail, depHello) of
          (Some err, st'') \<Rightarrow> (Some err, st'')
        | (None, st'') \<Rightarrow> doActions [AddTrafficAgent_action pkgExample] st'')"
    by (simp add: acts)
  then show ?thesis
    using h a ne by simp
qed


section \<open>Undo where the action is not done\<close>

text \<open>
  C4 (amended).  When \<open>IsDone\<close> is false, \<open>Undo\<close> of \<open>makePortSymbolicAction\<close>,
  of \<open>addSymbolicPortAction\<close> and of \<open>hideContainerPortAction\<close> returns an error
  and leaves the object as it was; \<open>Undo\<close> of \<open>addTrafficAgentAction\<close> leaves the
  object as it was and returns no error.
\<close>

theorem undo_without_marker:
  "(\<not> makePortSymbolic_IsDone m svc \<longrightarrow> (\<exists>err. makePortSymbolic_Undo m svc = (Some err, svc)))
   \<and> (\<not> addSymbolicPort_IsDone m svc \<longrightarrow> (\<exists>err. addSymbolicPort_Undo m svc = (Some err, svc)))
   \<and> (\<not> hideContainerPort_IsDone hcp dep \<longrightarrow>
         (\<exists>err. hideContainerPort_Undo hcp dep = (Some err, dep)))
   \<and> (\<not> addTrafficAgent_IsDone ata dep \<longrightarrow> addTrafficAgent_Undo ata dep = (None, dep))"
  by (auto simp: makePortSymbolic_IsDone_def makePortSymbolic_Undo_def
      addSymbolicPort_IsDone_def addSymbolicPort_Undo_def
      hideContainerPort_IsDone_def hideContainerPort_Undo_def
      addTrafficAgent_IsDone_def addTrafficAgent_Undo_def split: sum.splits)

text \<open>
  The claim as stated fails: no container of \<open>depHello\<close> has the agent's name, and
  \<open>Undo\<close> of \<open>addTrafficAgentAction\<close> returns nil.
\<close>

theorem addTrafficAgent_Undo_no_error:
  "\<not> addTrafficAgent_IsDone ataHello depHello
   \<and> fst (addTrafficAgent_Undo ataHello depHello) = None"
  by (simp add: addTrafficAgent_IsDone_def addTrafficAgent_Undo_def example_defs
      agentContainerName_def)

theorem undo_without_marker_witness:
  "\<not> makePortSymbolic_IsDone mpsHttp svcNumeric
   \<and> (\<exists>err. makePortSymbolic_Undo mpsHttp svcNumeric = (Some err, svcNumeric))
   \<and> \<not> addSymbolicPort_IsDone mpsHttp svcUnset
   \<and> (\<exists>err. addSymbolicPort_Undo mpsHttp svcUnset = (Some err, svcUnset))
   \<and> \<not> hideContainerPort_IsDone hcpHttp depHello
   \<and> (\<exists>err. hideContainerPort_Undo hcpHttp depHello = (Some err, depHello))
   \<and> \<not> addTrafficAgent_IsDone ataHello depHello
   \<and> addTrafficAgent_Undo ataHello depHello = (None, depHello)"
proof -
  have a: "\<not> makePortSymbolic_IsDone mpsHttp svcNumeric"
    by (simp add: makePortSymbolic_IsDone_def makePortSymbolic_getPort_def example_defs
        FromInt_def FromString_def)
  have b: "\<not> addSymbolicPort_IsDone mpsHttp svcUnset"
    by (simp add: addSymbolicPort_IsDone_def makePortSymbolic_IsDone_def
        makePortSymbolic_getPort_def example_defs IntOrString_zero_def FromString_def)
  have c: "\<not> hideContainerPort_IsDone hcpHttp depHello"
    by (simp add: hideContainerPort_IsDone_def hideContainerPort_getPort_def example_defs)
  have d: "\<not> addTrafficAgent_IsDone ataHello depHello"
    by (simp add: addTrafficAgent_IsDone_def example_defs agentContainerName_def)
  from undo_without_marker [of mpsHttp svcNumeric] undo_without_marker [of mpsHttp svcUnset]
    undo_without_marker [where hcp = hcpHttp and dep = depHello and ata = ataHello] a b c d
  show ?thesis by blast
qed


section \<open>addSymbolicPortAction\<close>

text \<open>
  C8 (amended).  \<open>Do\<close> succeeds exactly when some port of the service has the
  number \<open>TargetPort\<close> as its \<open>Port\<close> and the integer 0 (the unset value) as its
  target port; it then sets the target port of the first such port to the string
  \<open>SymbolicName\<close> and changes nothing else.  \<open>Undo\<close> succeeds exactly when some
  port of the service is named \<open>PortName\<close> and has the string \<open>SymbolicName\<close> as
  its target port; it then sets the target port of the first such port to the
  zero value \<open>IntOrString{}\<close>, never to a number, and changes nothing else.  Either
  returns an error and leaves the service as it was otherwise.
\<close>

theorem addSymbolicPort_semantics:
  "(fst (addSymbolicPort_Do m svc) = None \<longleftrightarrow>
      (\<exists>p\<in>set (Svc_Ports svc).
          sint (SP_Port p) = uint (TargetPort m)
          \<and> Type (SP_TargetPort p) = intstr_Int \<and> IntVal (SP_TargetPort p) = 0))
   \<and> (\<forall>svc'. addSymbolicPort_Do m svc = (None, svc') \<longrightarrow>
         (\<exists>i<length (Svc_Ports svc).
             sint (SP_Port (Svc_Ports svc ! i)) = uint (TargetPort m)
             \<and> Type (SP_TargetPort (Svc_Ports svc ! i)) = intstr_Int
             \<and> IntVal (SP_TargetPort (Svc_Ports svc ! i)) = 0
             \<and> (\<forall>j<i. \<not> (sint (SP_Port (Svc_Ports svc ! j)) = uint (TargetPort m)
                        \<and> Type (SP_TargetPort (Svc_Ports svc ! j)) = intstr_Int
                        \<and> IntVal (SP_TargetPort (Svc_Ports svc ! j)) = 0))
             \<and> svc' = svc\<lparr>Svc_Ports := (Svc_Ports svc)
                   [i := (Svc_Ports svc ! i)\<lparr>SP_TargetPort := FromString (SymbolicName m)\<rparr>]\<rparr>))
   \<and> (\<forall>err svc'. addSymbolicPort_Do m svc = (Some err, svc') \<longrightarrow> svc' = svc)
   \<and> (fst (addSymbolicPort_Undo m svc) = None \<longleftrightarrow>
        (\<exists>p\<in>set (Svc_Ports svc).
            SP_Name p = PortName m \<and> SP_TargetPort p = FromString (SymbolicName m)))
   \<and> (\<forall>svc'. addSymbolicPort_Undo m svc = (None, svc') \<longrightarrow>
         (\<exists>i<length (Svc_Ports svc).
             SP_Name (Svc_Ports svc ! i) = PortName m
             \<and> SP_TargetPort (Svc_Ports svc ! i) = FromString (SymbolicName m)
             \<and> (\<forall>j<i. \<not> (SP_Name (Svc_Ports svc ! j) = PortName m
                        \<and> SP_TargetPort (Svc_Ports svc ! j) = FromString (SymbolicName m)))
             \<and> svc' = svc\<lparr>Svc_Ports := (Svc_Ports svc)
                   [i := (Svc_Ports svc ! i)\<lparr>SP_TargetPort := IntOrString_zero\<rparr>]\<rparr>))
   \<and> (\<forall>err svc'. addSymbolicPort_Undo m svc = (Some err, svc') \<longrightarrow> svc' = svc)"
proof -
  let ?P = "\<lambda>p. Type (SP_TargetPort p) = intstr_Int \<and> IntVal (SP_TargetPort p) = 0
                  \<and> SP_Port p = ucast (TargetPort m)"
  let ?P' = "\<lambda>p. sint (SP_Port p) = uint (TargetPort m)
                  \<and> Type (SP_TargetPort p) = intstr_Int \<and> IntVal (SP_TargetPort p) = 0"
  let ?Q = "\<lambda>p. SP_TargetPort p = FromString (SymbolicName m) \<and> SP_Name p = PortName m"
  let ?Q' = "\<lambda>p. SP_Name p = PortName m \<and> SP_TargetPort p = FromString (SymbolicName m)"
  have do_eq: "addSymbolicPort_Do m svc =
      (case firstIndex ?P (Svc_Ports svc) of
         None \<Rightarrow> (Some (UnableToFindPort (ucast (TargetPort m)) (Svc_Name svc)), svc)
       | Some i \<Rightarrow> (None, setTargetPort svc i (FromString (SymbolicName m))))"
    by (simp add: addSymbolicPort_Do_def addSymbolicPort_getPort_def split: option.splits)
  have undo_eq: "addSymbolicPort_Undo m svc =
      (case firstIndex ?Q (Svc_Ports svc) of
         None \<Rightarrow> (Some (UnableToFindTargetPort
                     (portName m (IntOrString_String (FromString (SymbolicName m))))
                     (Svc_Name svc)), svc)
       | Some i \<Rightarrow> (None, setTargetPort svc i IntOrString_zero))"
    by (simp add: addSymbolicPort_Undo_def makePortSymbolic_getPort_def split: option.splits)
  have P_iff: "\<And>p. ?P p \<longleftrightarrow> ?P' p"
    by (auto simp: eq_ucast_iff)
  have Q_iff: "\<And>p. ?Q p \<longleftrightarrow> ?Q' p"
    by auto
  have do_cases:
    "(\<exists>err. addSymbolicPort_Do m svc = (Some err, svc) \<and> (\<forall>p\<in>set (Svc_Ports svc). \<not> ?P' p))
     \<or> (\<exists>i<length (Svc_Ports svc). ?P' (Svc_Ports svc ! i)
          \<and> (\<forall>j<i. \<not> ?P' (Svc_Ports svc ! j))
          \<and> addSymbolicPort_Do m svc
              = (None, svc\<lparr>Svc_Ports := (Svc_Ports svc)
                   [i := (Svc_Ports svc ! i)\<lparr>SP_TargetPort := FromString (SymbolicName m)\<rparr>]\<rparr>))"
  proof (cases "firstIndex ?P (Svc_Ports svc)")
    case None
    have "\<forall>p\<in>set (Svc_Ports svc). \<not> ?P p"
      using None by (simp only: firstIndex_None)
    then have "\<forall>p\<in>set (Svc_Ports svc). \<not> ?P' p"
      unfolding P_iff .
    moreover have "\<exists>err. addSymbolicPort_Do m svc = (Some err, svc)"
      unfolding do_eq None by simp
    ultimately show ?thesis by blast
  next
    case (Some i)
    from firstIndex_Some [OF Some] have "i < length (Svc_Ports svc)" "?P (Svc_Ports svc ! i)"
      "\<forall>j<i. \<not> ?P (Svc_Ports svc ! j)"
      by blast+
    then have "i < length (Svc_Ports svc)" "?P' (Svc_Ports svc ! i)"
      "\<forall>j<i. \<not> ?P' (Svc_Ports svc ! j)"
      unfolding P_iff .
    moreover have "addSymbolicPort_Do m svc
              = (None, svc\<lparr>Svc_Ports := (Svc_Ports svc)
                   [i := (Svc_Ports svc ! i)\<lparr>SP_TargetPort := FromString (SymbolicName m)\<rparr>]\<rparr>)"
      unfolding do_eq Some by (simp add: setTargetPort_def)
    ultimately show ?thesis by blast
  qed
  have undo_cases:
    "(\<exists>err. addSymbolicPort_Undo m svc = (Some err, svc) \<and> (\<forall>p\<in>set (Svc_Ports svc). \<not> ?Q' p))
     \<or> (\<exists>i<length (Svc_Ports svc). ?Q' (Svc_Ports svc ! i)
          \<and> (\<forall>j<i. \<not> ?Q' (Svc_Ports svc ! j))
          \<and> addSymbolicPort_Undo m svc
              = (None, svc\<lparr>Svc_Ports := (Svc_Ports svc)
                   [i := (Svc_Ports svc ! i)\<lparr>SP_TargetPort := IntOrString_zero\<rparr>]\<rparr>))"
  proof (cases "firstIndex ?Q (Svc_Ports svc)")
    case None
    have "\<forall>p\<in>set (Svc_Ports svc). \<not> ?Q p"
      using None by (simp only: firstIndex_None)
    then have "\<forall>p\<in>set (Svc_Ports svc). \<not> ?Q' p"
      unfolding Q_iff .
    moreover have "\<exists>err. addSymbolicPort_Undo m svc = (Some err, svc)"
      unfolding undo_eq None by simp
    ultimately show ?thesis by blast
  next
    case (Some i)
    from firstIndex_Some [OF Some] have "i < length (Svc_Ports svc)" "?Q (Svc_Ports svc ! i)"
      "\<forall>j<i. \<not> ?Q (Svc_Ports svc ! j)"
      by blast+
    then have "i < length (Svc_Ports svc)" "?Q' (Svc_Ports svc ! i)"
      "\<forall>j<i. \<not> ?Q' (Svc_Ports svc ! j)"
      unfolding Q_iff .
    moreover have "addSymbolicPort_Undo m svc
              = (None, svc\<lparr>Svc_Ports := (Svc_Ports svc)
                   [i := (Svc_Ports svc ! i)\<lparr>SP_TargetPort := IntOrString_zero\<rparr>]\<rparr>)"
      unfolding undo_eq Some by (simp add: setTargetPort_def)
    ultimately show ?thesis by blast
  qed
  have 1: "fst (addSymbolicPort_Do m svc) = None \<longleftrightarrow> (\<exists>p\<in>set (Svc_Ports svc). ?P' p)"
    using do_cases by (auto dest: nth_mem)
  have 2: "\<forall>svc'. addSymbolicPort_Do m svc = (None, svc') \<longrightarrow>
         (\<exists>i<length (Svc_Ports svc). ?P' (Svc_Ports svc ! i)
             \<and> (\<forall>j<i. \<not> ?P' (Svc_Ports svc ! j))
             \<and> svc' = svc\<lparr>Svc_Ports := (Svc_Ports svc)
                   [i := (Svc_Ports svc ! i)\<lparr>SP_TargetPort := FromString (SymbolicName m)\<rparr>]\<rparr>)"
    using do_cases by auto
  have 3: "\<forall>err svc'. addSymbolicPort_Do m svc = (Some err, svc') \<longrightarrow> svc' = svc"
    using do_cases by auto
  have 4: "fst (addSymbolicPort_Undo m svc) = None \<longleftrightarrow> (\<exists>p\<in>set (Svc_Ports svc). ?Q' p)"
    using undo_cases by (auto dest: nth_mem)
  have 5: "\<forall>svc'. addSymbolicPort_Undo m svc = (None, svc') \<longrightarrow>
         (\<exists>i<length (Svc_Ports svc). ?Q' (Svc_Ports svc ! i)
             \<and> (\<forall>j<i. \<not> ?Q' (Svc_Ports svc ! j))
             \<and> svc' = svc\<lparr>Svc_Ports := (Svc_Ports svc)
                   [i := (Svc_Ports svc ! i)\<lparr>SP_TargetPort := IntOrString_zero\<rparr>]\<rparr>)"
    using undo_cases by auto
  have 6: "\<forall>err svc'. addSymbolicPort_Undo m svc = (Some err, svc') \<longrightarrow> svc' = svc"
    using undo_cases by auto
  from 1 2 3 4 5 6 show ?thesis by simp
qed

theorem addSymbolicPort_semantics_witness:
  "addSymbolicPort_Do mpsHttp svcUnset
     = (None, svcUnset\<lparr>Svc_Ports := [svcPort ''http'' 8080 (FromString ''tx-8080'')]\<rparr>)
   \<and> addSymbolicPort_Undo mpsHttp
        (svcUnset\<lparr>Svc_Ports := [svcPort ''http'' 8080 (FromString ''tx-8080'')]\<rparr>)
     = (None, svcUnset)
   \<and> fst (addSymbolicPort_Undo mpsHttp svcUnset) \<noteq> None"
  using addSymbolicPort_semantics [of mpsHttp svcUnset]
  by (simp add: addSymbolicPort_Do_def addSymbolicPort_getPort_def addSymbolicPort_Undo_def
      makePortSymbolic_getPort_def setTargetPort_def example_defs IntOrString_zero_def
      FromString_def)

text \<open>
  The claim as stated fails where it says that \<open>Undo\<close> locates the port whose
  target port is the string: a port named \<open>other\<close> has the string as its target
  port, and \<open>Undo\<close> of the action for the port \<open>http\<close> returns an error and
  leaves it; and after \<open>Do\<close> of an action whose \<open>PortName\<close> is \<open>web\<close> has set the
  target port of the port \<open>http\<close> to the string, \<open>Undo\<close> of the same action
  returns an error and leaves the string in place.
\<close>

theorem addSymbolicPort_Undo_other_name:
  "(\<exists>p\<in>set (Svc_Ports svcOtherSymbolic). SP_TargetPort p = FromString (SymbolicName mpsHttp))
   \<and> (\<exists>err. addSymbolicPort_Undo mpsHttp svcOtherSymbolic = (Some err, svcOtherSymbolic))
   \<and> addSymbolicPort_Do mpsWeb svcUnset
       = (None, svcUnset\<lparr>Svc_Ports := [svcPort ''http'' 8080 (FromString ''tx-8080'')]\<rparr>)
   \<and> (\<exists>err. addSymbolicPort_Undo mpsWeb
          (svcUnset\<lparr>Svc_Ports := [svcPort ''http'' 8080 (FromString ''tx-8080'')]\<rparr>)
        = (Some err, svcUnset\<lparr>Svc_Ports := [svcPort ''http'' 8080 (FromString ''tx-8080'')]\<rparr>))"
  by (simp add: addSymbolicPort_Do_def addSymbolicPort_getPort_def addSymbolicPort_Undo_def
      makePortSymbolic_getPort_def setTargetPort_def example_defs IntOrString_zero_def
      FromString_def)

section \<open>The persisted form\<close>

text \<open>
  C3 (amended).  The members of a serialized workload plan are among \<open>version\<close>,
  \<open>ReferencedService\<close>, \<open>referenced_service_port_name\<close>, \<open>hide_container_port\<close>
  and \<open>add_traffic_agent\<close>: the referenced service name is written under the Go
  name of its field, \<open>ReferencedService\<close>, which has no tag, and there is no member
  \<open>referenced_service\<close>.  The agent stanza has exactly the members
  \<open>container_port_name\<close>, \<open>container_port_proto\<close>, \<open>app_port\<close> and \<open>image_name\<close>,
  the hide stanza \<open>container_name\<close>, \<open>port_name\<close> and \<open>hidden_name\<close>.
\<close>

theorem deploymentActions_json_keys:
  "set (jsonKeys (marshal_deploymentActions d))
     \<subseteq> {''version'', ''ReferencedService'', ''referenced_service_port_name'',
         ''hide_container_port'', ''add_traffic_agent''}
   \<and> jsonMember (marshal_deploymentActions d) ''ReferencedService''
       = Some (JString (ReferencedService d))
   \<and> jsonMember (marshal_deploymentActions d) ''referenced_service'' = None
   \<and> (\<forall>ata. AddTrafficAgent d = Some ata \<longrightarrow>
         (\<exists>j. jsonMember (marshal_deploymentActions d) ''add_traffic_agent'' = Some j
            \<and> jsonKeys j = [''container_port_name'', ''container_port_proto'', ''app_port'',
                 ''image_name'']))
   \<and> (\<forall>hcp. HideContainerPort d = Some hcp \<longrightarrow>
         (\<exists>j. jsonMember (marshal_deploymentActions d) ''hide_container_port'' = Some j
            \<and> jsonKeys j = [''container_name'', ''port_name'', ''hidden_name'']))"
  by (auto simp: marshal_deploymentActions_def marshal_addTrafficAgentAction_def
      marshal_hideContainerPortAction_def split: option.splits)

theorem deploymentActions_json_keys_witness:
  "jsonKeys (marshal_deploymentActions planHideAndAgent)
     = [''version'', ''ReferencedService'', ''referenced_service_port_name'',
        ''hide_container_port'', ''add_traffic_agent'']
   \<and> jsonMember (marshal_deploymentActions planHideAndAgent) ''ReferencedService''
       = Some (JString ''hello'')
   \<and> (\<exists>j. jsonMember (marshal_deploymentActions planHideAndAgent) ''add_traffic_agent'' = Some j
         \<and> jsonKeys j = [''container_port_name'', ''container_port_proto'', ''app_port'',
              ''image_name''])"
  using deploymentActions_json_keys [of planHideAndAgent]
  by (simp add: marshal_deploymentActions_def marshal_addTrafficAgentAction_def
      marshal_hideContainerPortAction_def example_defs)

text \<open>
  The claim as stated fails: the plan for the service \<open>hello\<close> has no member
  \<open>referenced_service\<close>; the name is under \<open>ReferencedService\<close>.
\<close>

theorem referenced_service_key:
  "ReferencedService planHideAndAgent = ''hello''
   \<and> jsonMember (marshal_deploymentActions planHideAndAgent) ''referenced_service'' = None
   \<and> jsonMember (marshal_deploymentActions planHideAndAgent) ''ReferencedService''
       = Some (JString ''hello'')"
  by (simp add: marshal_deploymentActions_def marshal_addTrafficAgentAction_def
      marshal_hideContainerPortAction_def example_defs)

section \<open>The loops of hideContainerPortAction.getPort\<close>

lemma getPort_loop_Some:
  "getPort_loop cname nm cns = Some (i, pn) \<Longrightarrow>
     i < length cns \<and> Cn_Name (cns ! i) = cname
     \<and> firstIndex (\<lambda>p. CP_Name p = nm) (Cn_Ports (cns ! i)) = Some pn"
proof (induction cns arbitrary: i)
  case Nil
  then show ?case by simp
next
  case (Cons cn cns)
  show ?case
  proof (cases "Cn_Name cn = cname \<and> firstIndex (\<lambda>p. CP_Name p = nm) (Cn_Ports cn) \<noteq> None")
    case True
    with Cons.prems show ?thesis by auto
  next
    case False
    with Cons.prems obtain k where k: "getPort_loop cname nm cns = Some (k, pn)" "i = Suc k"
      by (auto split: if_splits option.splits)
    from Cons.IH [OF k(1)] k(2) show ?thesis by simp
  qed
qed

lemma getPort_loop_update:
  assumes "getPort_loop cname nm cns = Some (i, pn)"
    and "\<forall>cn\<in>set cns. Cn_Name cn = cname \<longrightarrow>
           firstIndex (\<lambda>p. CP_Name p = nm') (Cn_Ports cn) = None"
    and "Cn_Name c' = cname"
    and "firstIndex (\<lambda>p. CP_Name p = nm') (Cn_Ports c') = Some pn"
  shows "getPort_loop cname nm' (cns[i := c']) = Some (i, pn)"
  using assms(1,2)
proof (induction cns arbitrary: i)
  case Nil
  then show ?case by simp
next
  case (Cons cn cns)
  show ?case
  proof (cases "Cn_Name cn = cname \<and> firstIndex (\<lambda>p. CP_Name p = nm) (Cn_Ports cn) \<noteq> None")
    case True
    with Cons.prems(1) have "i = 0" by auto
    then show ?thesis using assms(3,4) by simp
  next
    case False
    with Cons.prems(1) obtain k where k: "getPort_loop cname nm cns = Some (k, pn)" "i = Suc k"
      by (auto split: if_splits option.splits)
    have "getPort_loop cname nm' (cns[k := c']) = Some (k, pn)"
      using Cons.prems(2) by (intro Cons.IH [OF k(1)]) simp
    moreover have "Cn_Name cn = cname \<longrightarrow>
        firstIndex (\<lambda>p. CP_Name p = nm') (Cn_Ports cn) = None"
      using Cons.prems(2) by simp
    ultimately show ?thesis using k(2) by auto
  qed
qed

section \<open>The hidden name\<close>

text \<open>
  On success \<open>Do\<close> stores the prefix \<open>tel2mv-\<close> followed by the port's name, so
  the hidden name is seven characters longer than the port's name.
\<close>

lemma hideContainerPort_Do_hidden_name:
  assumes "hideContainerPort_Do hcp dep = (None, hcp', dep')"
  shows "HiddenName hcp' = ''tel2mv-'' @ HCP_PortName hcp"
    and "length (HiddenName hcp') = 7 + length (HCP_PortName hcp)"
proof -
  from assms obtain i pn where
    found: "getPort_loop (ContainerName hcp) (HCP_PortName hcp) (Containers dep) = Some (i, pn)"
    by (auto simp: hideContainerPort_Do_def hideContainerPort_getPort_def
        split: option.splits)
  from getPort_loop_Some [OF found]
  have "firstIndex (\<lambda>p. CP_Name p = HCP_PortName hcp) (Cn_Ports (Containers dep ! i)) = Some pn"
    by simp
  from firstIndex_Some [OF this]
  have "CP_Name (Cn_Ports (Containers dep ! i) ! pn) = HCP_PortName hcp" by simp
  with assms found show "HiddenName hcp' = ''tel2mv-'' @ HCP_PortName hcp"
    by (auto simp: hideContainerPort_Do_def hideContainerPort_getPort_def Let_def)
  then show "length (HiddenName hcp') = 7 + length (HCP_PortName hcp)"
    by simp
qed

text \<open>
  C5.  The code at a port whose name has twelve characters: \<open>Do\<close> succeeds and
  renames the port to a hidden name of nineteen characters, more than the fifteen
  that the comment in \<open>Do\<close> and the claim ask for.
\<close>

theorem hidden_name_too_long:
  "(case hideContainerPort_Do hcpMetrics depMetrics of
      (err, hcp', dep') \<Rightarrow>
        err = None
        \<and> HiddenName hcp' = ''tel2mv-http-metrics''
        \<and> map CP_Name (concat (map Cn_Ports (Containers dep'))) = [''tel2mv-http-metrics'']
        \<and> length (HiddenName hcp') = 19)"
  by (simp add: hideContainerPort_Do_def hideContainerPort_getPort_def swapInDeployment_def
      swapPortName_def example_defs)

section \<open>Do applied twice\<close>

lemma find_append':
  "find P (xs @ ys) = (case find P xs of Some x \<Rightarrow> Some x | None \<Rightarrow> find P ys)"
  by (induction xs) auto

lemma firstIndex_append_agent:
  "firstIndex P xs = None \<Longrightarrow> P a \<Longrightarrow> firstIndex P (xs @ [a]) = Some (length xs)"
  by (induction xs) (auto split: if_splits)

text \<open>
  C2 (amended).  \<open>Do\<close> does not consult \<open>IsDone\<close>.  For a plan that consists of
  an \<open>addTrafficAgentAction\<close>, whenever \<open>Do\<close> succeeds the plan is unchanged and
  \<open>IsDone\<close> holds, and a second \<open>Do\<close> succeeds as well, but it appends a second
  agent container equal to the first, so its result is not the result of the
  first \<open>Do\<close>.
\<close>

theorem agent_plan_do_twice:
  assumes "HideContainerPort d = None" and "AddTrafficAgent d \<noteq> None"
    and "deploymentActions_Do pkg (d, dep) = (None, d', dep')"
  shows "d' = d
    \<and> deploymentActions_IsDone pkg (d', dep')
    \<and> (\<exists>agent. Cn_Name agent = agentContainerName
          \<and> dep' = dep\<lparr>Containers := Containers dep @ [agent]\<rparr>
          \<and> deploymentActions_Do pkg (d', dep')
              = (None, d', dep\<lparr>Containers := Containers dep @ [agent, agent]\<rparr>))
    \<and> deploymentActions_Do pkg (d', dep') \<noteq> (None, d', dep')"
proof -
  from assms(2) obtain ata where ata: "AddTrafficAgent d = Some ata" by auto
  have acts: "deploymentActions_Actions pkg d = [AddTrafficAgent_action pkg]"
    using assms(1) ata by (simp add: deploymentActions_Actions_def)
  have do_eq: "\<And>x. deploymentActions_Do pkg (d, x) =
      (case addTrafficAgent_Do pkg ata x of (err, x') \<Rightarrow> (err, d, x'))"
    using ata by (simp add: deploymentActions_Do_def acts AddTrafficAgent_action_def viaField_def
        split: prod.splits option.splits)
  from assms(3) obtain appCn where app: "appContainer ata dep = Some appCn"
    and d': "d' = d"
    and dep': "dep' = dep\<lparr>Containers := Containers dep @ [agentContainer pkg ata (Dep_Name dep) appCn]\<rparr>"
    unfolding do_eq by (auto simp: addTrafficAgent_Do_def split: option.splits)
  let ?agent = "agentContainer pkg ata (Dep_Name dep) appCn"
  have app': "appContainer ata dep' = Some appCn"
    using app by (simp add: appContainer_def dep' find_append')
  have second: "deploymentActions_Do pkg (d', dep')
      = (None, d', dep\<lparr>Containers := Containers dep @ [?agent, ?agent]\<rparr>)"
    unfolding d' do_eq using app' by (simp add: addTrafficAgent_Do_def dep')
  have "length (Containers (dep\<lparr>Containers := Containers dep @ [?agent, ?agent]\<rparr>))
      \<noteq> length (Containers dep')"
    by (simp add: dep')
  then have ne: "dep\<lparr>Containers := Containers dep @ [?agent, ?agent]\<rparr> \<noteq> dep'"
    by metis
  have isdone: "deploymentActions_IsDone pkg (d', dep')"
    using ata
    by (auto simp: deploymentActions_IsDone_def d' acts AddTrafficAgent_action_def
        isDoneViaField_def addTrafficAgent_IsDone_def dep' firstIndex_None)
  have ex: "\<exists>agent. Cn_Name agent = agentContainerName
          \<and> dep' = dep\<lparr>Containers := Containers dep @ [agent]\<rparr>
          \<and> deploymentActions_Do pkg (d', dep')
              = (None, d', dep\<lparr>Containers := Containers dep @ [agent, agent]\<rparr>)"
    using dep' second by (intro exI [of _ ?agent]) simp
  have "deploymentActions_Do pkg (d', dep') \<noteq> (None, d', dep')"
    using second ne by simp
  with d' isdone ex show ?thesis by simp
qed


theorem agent_plan_do_twice_witness:
  "HideContainerPort planAgentOnly = None \<and> AddTrafficAgent planAgentOnly \<noteq> None
   \<and> deploymentActions_Do pkgExample (planAgentOnly, depHello)
       = (None, planAgentOnly,
          depHello\<lparr>Containers :=
            [appHello, agentContainer pkgExample ataHello ''hello'' appHello]\<rparr>)
   \<and> deploymentActions_IsDone pkgExample
        (planAgentOnly,
         depHello\<lparr>Containers :=
           [appHello, agentContainer pkgExample ataHello ''hello'' appHello]\<rparr>)
   \<and> deploymentActions_Do pkgExample
        (planAgentOnly,
         depHello\<lparr>Containers :=
           [appHello, agentContainer pkgExample ataHello ''hello'' appHello]\<rparr>)
       \<noteq> (None, planAgentOnly,
           depHello\<lparr>Containers :=
             [appHello, agentContainer pkgExample ataHello ''hello'' appHello]\<rparr>)"
proof -
  have hyp: "HideContainerPort planAgentOnly = None" "AddTrafficAgent planAgentOnly \<noteq> None"
    by (simp_all add: planAgentOnly_def)
  have app: "appContainer ataHello depHello = Some appHello"
    by (simp add: appContainer_def example_defs)
  have nm: "Dep_Name depHello = ''hello''" "Containers depHello = [appHello]"
    by (simp_all add: depHello_def)
  have first: "deploymentActions_Do pkgExample (planAgentOnly, depHello)
     = (None, planAgentOnly,
        depHello\<lparr>Containers :=
          [appHello, agentContainer pkgExample ataHello ''hello'' appHello]\<rparr>)"
    using app nm
    by (simp add: deploymentActions_Do_def deploymentActions_Actions_def planAgentOnly_def
        AddTrafficAgent_action_def viaField_def addTrafficAgent_Do_def)
  from agent_plan_do_twice [OF hyp first] hyp first show ?thesis
    by simp
qed

text \<open>
  The claim as stated fails: on the deployment \<open>hello\<close> both applications of \<open>Do\<close>
  succeed, and the second result has one agent container more than the first.
\<close>

theorem do_twice_not_idempotent:
  "fst (deploymentActions_Do pkgExample (planAgentOnly, depHello)) = None
   \<and> fst (deploymentActions_Do pkgExample
           (snd (deploymentActions_Do pkgExample (planAgentOnly, depHello)))) = None
   \<and> snd (deploymentActions_Do pkgExample
           (snd (deploymentActions_Do pkgExample (planAgentOnly, depHello))))
       \<noteq> snd (deploymentActions_Do pkgExample (planAgentOnly, depHello))"
proof -
  let ?A = "agentContainer pkgExample ataHello ''hello'' appHello"
  have app: "appContainer ataHello depHello = Some appHello"
    by (simp add: appContainer_def example_defs)
  have app2: "appContainer ataHello (depHello\<lparr>Containers := [appHello, ?A]\<rparr>) = Some appHello"
    by (simp add: appContainer_def ataHello_def appHello_def appWith_def)
  have nm: "Dep_Name depHello = ''hello''" "Containers depHello = [appHello]"
    by (simp_all add: depHello_def)
  have first: "deploymentActions_Do pkgExample (planAgentOnly, depHello)
     = (None, planAgentOnly, depHello\<lparr>Containers := [appHello, ?A]\<rparr>)"
    using app nm
    by (simp add: deploymentActions_Do_def deploymentActions_Actions_def planAgentOnly_def
        AddTrafficAgent_action_def viaField_def addTrafficAgent_Do_def)
  have second: "deploymentActions_Do pkgExample
        (planAgentOnly, depHello\<lparr>Containers := [appHello, ?A]\<rparr>)
     = (None, planAgentOnly, depHello\<lparr>Containers := [appHello, ?A, ?A]\<rparr>)"
    using app2 nm
    by (simp add: deploymentActions_Do_def deploymentActions_Actions_def planAgentOnly_def
        AddTrafficAgent_action_def viaField_def addTrafficAgent_Do_def)
  have "length (Containers (depHello\<lparr>Containers := [appHello, ?A, ?A]\<rparr>))
      \<noteq> length (Containers (depHello\<lparr>Containers := [appHello, ?A]\<rparr>))"
    by simp
  then have ne: "depHello\<lparr>Containers := [appHello, ?A, ?A]\<rparr>
      \<noteq> depHello\<lparr>Containers := [appHello, ?A]\<rparr>"
    by metis
  show ?thesis
    by (simp add: first second ne)
qed

section \<open>The round trip of a service plan\<close>

lemma distinct_names_first:
  assumes "distinct (map SP_Name ports)" "i < length ports" "j < i"
  shows "SP_Name (ports ! j) \<noteq> SP_Name (ports ! i)"
proof -
  have "j < length (map SP_Name ports)" "i < length (map SP_Name ports)" "j \<noteq> i"
    using assms by auto
  from nth_eq_iff_index_eq [OF assms(1) this(1,2)] this(3)
  have "map SP_Name ports ! j \<noteq> map SP_Name ports ! i"
    by blast
  then show ?thesis using assms by simp
qed

lemma firstIndex_after_set:
  assumes "distinct (map SP_Name ports)" "i < length ports" "SP_Name (ports ! i) = nm"
  shows "firstIndex (\<lambda>p. SP_TargetPort p = v \<and> SP_Name p = nm)
           (ports[i := (ports ! i)\<lparr>SP_TargetPort := v\<rparr>]) = Some i"
proof (rule firstIndex_SomeI)
  show "i < length (ports[i := (ports ! i)\<lparr>SP_TargetPort := v\<rparr>])"
    using assms(2) by simp
  show "SP_TargetPort (ports[i := (ports ! i)\<lparr>SP_TargetPort := v\<rparr>] ! i) = v \<and>
    SP_Name (ports[i := (ports ! i)\<lparr>SP_TargetPort := v\<rparr>] ! i) = nm"
    using assms(2,3) by simp
  show "\<forall>j<i. \<not> (SP_TargetPort (ports[i := (ports ! i)\<lparr>SP_TargetPort := v\<rparr>] ! j) = v \<and>
    SP_Name (ports[i := (ports ! i)\<lparr>SP_TargetPort := v\<rparr>] ! j) = nm)"
    using distinct_names_first [OF assms(1,2)] assms(3) by auto
qed

lemma makePortSymbolic_roundtrip:
  assumes "distinct (map SP_Name (Svc_Ports svc))"
    and "makePortSymbolic_Do m svc = (None, svc')"
  shows "makePortSymbolic_Undo m svc' = (None, svc)"
proof -
  let ?P = "\<lambda>p. SP_TargetPort p = FromInt (ucast (TargetPort m)) \<and> SP_Name p = PortName m"
  from assms(2) obtain i where i: "firstIndex ?P (Svc_Ports svc) = Some i"
    and svc': "svc' = setTargetPort svc i (FromString (SymbolicName m))"
    by (auto simp: makePortSymbolic_Do_def makePortSymbolic_getPort_def split: option.splits)
  from firstIndex_Some [OF i] have il: "i < length (Svc_Ports svc)"
    and tp: "SP_TargetPort (Svc_Ports svc ! i) = FromInt (ucast (TargetPort m))"
    and nm: "SP_Name (Svc_Ports svc ! i) = PortName m" by auto
  have found: "firstIndex (\<lambda>p. SP_TargetPort p = FromString (SymbolicName m) \<and> SP_Name p = PortName m)
      (Svc_Ports svc') = Some i"
    unfolding svc' setTargetPort_def using firstIndex_after_set [OF assms(1) il nm] by simp
  have restore: "setTargetPort svc' i (FromInt (ucast (TargetPort m))) = svc"
    unfolding svc' setTargetPort_def using il tp [symmetric] by (simp add: list_update_same_conv)
  show ?thesis
    by (simp add: makePortSymbolic_Undo_def makePortSymbolic_getPort_def found restore)
qed

lemma addSymbolicPort_roundtrip:
  assumes "legalService svc"
    and "case addSymbolicPort_getPort m svc (ucast (TargetPort m)) of
               Inl err \<Rightarrow> True
             | Inr i \<Rightarrow> SP_Name (Svc_Ports svc ! i) = PortName m"
    and "addSymbolicPort_Do m svc = (None, svc')"
  shows "addSymbolicPort_Undo m svc' = (None, svc)"
proof -
  let ?P = "\<lambda>p. Type (SP_TargetPort p) = intstr_Int \<and> IntVal (SP_TargetPort p) = 0
                  \<and> SP_Port p = ucast (TargetPort m)"
  from assms(3) obtain i where i: "firstIndex ?P (Svc_Ports svc) = Some i"
    and svc': "svc' = setTargetPort svc i (FromString (SymbolicName m))"
    by (auto simp: addSymbolicPort_Do_def addSymbolicPort_getPort_def split: option.splits)
  from firstIndex_Some [OF i] have il: "i < length (Svc_Ports svc)"
    and ty: "Type (SP_TargetPort (Svc_Ports svc ! i)) = intstr_Int"
    and iv: "IntVal (SP_TargetPort (Svc_Ports svc ! i)) = 0" by auto
  from assms(2) i have nm: "SP_Name (Svc_Ports svc ! i) = PortName m"
    by (simp add: addSymbolicPort_getPort_def)
  from assms(1) have dist: "distinct (map SP_Name (Svc_Ports svc))"
    by (simp add: legalService_def)
  from assms(1) il ty have "StrVal (SP_TargetPort (Svc_Ports svc ! i)) = []"
    by (auto simp: legalService_def)
  with ty iv have zero: "SP_TargetPort (Svc_Ports svc ! i) = IntOrString_zero"
    by (simp add: IntOrString_zero_def)
  have found: "firstIndex (\<lambda>p. SP_TargetPort p = FromString (SymbolicName m) \<and> SP_Name p = PortName m)
      (Svc_Ports svc') = Some i"
    unfolding svc' setTargetPort_def using firstIndex_after_set [OF dist il nm] by simp
  have restore: "setTargetPort svc' i IntOrString_zero = svc"
    unfolding svc' setTargetPort_def using il zero [symmetric] by (simp add: list_update_same_conv)
  show ?thesis
    by (simp add: addSymbolicPort_Undo_def makePortSymbolic_getPort_def found restore)
qed

lemma svcActions_roundtrip:
  assumes "legalService svc" "legalSvcPlan s svc"
    and "svcActions_Do (s, svc) = (None, s', svc')"
  shows "svcActions_Undo (s', svc') = (None, s', svc)"
proof (cases "MakePortSymbolic s")
  case None
  note mps = None
  show ?thesis
  proof (cases "AddSymbolicPort s")
    case None
    with mps assms(3) show ?thesis
      by (simp add: svcActions_Do_def svcActions_Undo_def svcActions_Actions_def)
  next
    case (Some m)
    have acts: "svcActions_Actions s = [AddSymbolicPort_action]"
      using mps Some by (simp add: svcActions_Actions_def)
    from assms(3) have s': "s' = s" and d: "addSymbolicPort_Do m svc = (None, svc')"
      using Some
      by (auto simp: svcActions_Do_def acts AddSymbolicPort_action_def viaField_def
          split: prod.splits option.splits)
    from assms(2) Some have "case addSymbolicPort_getPort m svc (ucast (TargetPort m)) of
               Inl err \<Rightarrow> True
             | Inr i \<Rightarrow> SP_Name (Svc_Ports svc ! i) = PortName m"
      by (simp add: legalSvcPlan_def)
    from addSymbolicPort_roundtrip [OF assms(1) this d] show ?thesis
      using Some by (simp add: svcActions_Undo_def s' acts AddSymbolicPort_action_def viaField_def)
  qed
next
  case (Some m)
  with assms(2) have asp: "AddSymbolicPort s = None"
    by (simp add: legalSvcPlan_def)
  have acts: "svcActions_Actions s = [MakePortSymbolic_action]"
    using asp Some by (simp add: svcActions_Actions_def)
  from assms(3) have s': "s' = s" and d: "makePortSymbolic_Do m svc = (None, svc')"
    using Some
    by (auto simp: svcActions_Do_def acts MakePortSymbolic_action_def viaField_def
        split: prod.splits option.splits)
  from assms(1) have dist: "distinct (map SP_Name (Svc_Ports svc))"
    by (simp add: legalService_def)
  from makePortSymbolic_roundtrip [OF dist d] show ?thesis
    using Some by (simp add: svcActions_Undo_def s' acts MakePortSymbolic_action_def viaField_def)
qed

section \<open>The round trip of a workload plan\<close>

lemma swapProbe_inverse1:
  assumes "to \<notin> set (map StrVal (probePorts (Some p)))"
  shows "swapProbe to from (swapProbe from to p) = p"
proof -
  have h: "map_option
      (\<lambda>h. h\<lparr>HTTPGet_Port := swapStrVal to from (swapStrVal from to (HTTPGet_Port h))\<rparr>)
      (HTTPGet p) = HTTPGet p"
    using assms by (cases "HTTPGet p") (auto simp: probePorts_def swapStrVal_def)
  have t: "map_option
      (\<lambda>t. t\<lparr>TCPSocket_Port := swapStrVal to from (swapStrVal from to (TCPSocket_Port t))\<rparr>)
      (TCPSocket p) = TCPSocket p"
    using assms by (cases "TCPSocket p") (auto simp: probePorts_def swapStrVal_def)
  show ?thesis
    by (simp add: swapProbe_def option.map_comp o_def h t)
qed

lemma swapProbe_inverse:
  "to \<notin> set (map StrVal (probePorts probe)) \<Longrightarrow>
     map_option (swapProbe to from) (map_option (swapProbe from to) probe) = probe"
  by (cases probe) (simp_all add: swapProbe_inverse1)

lemma swapPortName_inverse:
  assumes "pn < length (Cn_Ports cn)" "CP_Name (Cn_Ports cn ! pn) = from"
    and "to \<notin> set (map StrVal (containerProbePorts cn))"
  shows "swapPortName (swapPortName cn pn from to) pn to from = cn"
proof -
  have l: "map_option (swapProbe to from) (map_option (swapProbe from to) (LivenessProbe cn))
      = LivenessProbe cn"
    using assms(3) by (intro swapProbe_inverse) (simp add: containerProbePorts_def)
  have r: "map_option (swapProbe to from) (map_option (swapProbe from to) (ReadinessProbe cn))
      = ReadinessProbe cn"
    using assms(3) by (intro swapProbe_inverse) (simp add: containerProbePorts_def)
  have s: "map_option (swapProbe to from) (map_option (swapProbe from to) (StartupProbe cn))
      = StartupProbe cn"
    using assms(3) by (intro swapProbe_inverse) (simp add: containerProbePorts_def)
  have p: "(Cn_Ports cn)[pn := (Cn_Ports cn ! pn)\<lparr>CP_Name := from\<rparr>] = Cn_Ports cn"
    using assms(1,2) by (simp add: list_update_same_conv)
  show ?thesis
    using assms(1) by (simp add: swapPortName_def l r s p)
qed

lemma swapPortName_name [simp]: "Cn_Name (swapPortName cn pn from to) = Cn_Name cn"
  by (simp add: swapPortName_def)

lemma firstIndex_renamed:
  assumes "pn < length ports" "to \<notin> set (map CP_Name ports)"
  shows "firstIndex (\<lambda>p. CP_Name p = to) (ports[pn := (ports ! pn)\<lparr>CP_Name := to\<rparr>]) = Some pn"
proof (rule firstIndex_SomeI)
  show "pn < length (ports[pn := (ports ! pn)\<lparr>CP_Name := to\<rparr>])"
    using assms(1) by simp
  show "CP_Name (ports[pn := (ports ! pn)\<lparr>CP_Name := to\<rparr>] ! pn) = to"
    using assms(1) by simp
  show "\<forall>j<pn. CP_Name (ports[pn := (ports ! pn)\<lparr>CP_Name := to\<rparr>] ! j) \<noteq> to"
  proof (intro allI impI)
    fix j assume j: "j < pn"
    then have "ports ! j \<in> set ports" using assms(1) by simp
    then have "CP_Name (ports ! j) \<in> set (map CP_Name ports)" by simp
    with assms(2) have "CP_Name (ports ! j) \<noteq> to" by metis
    then show "CP_Name (ports[pn := (ports ! pn)\<lparr>CP_Name := to\<rparr>] ! j) \<noteq> to"
      using j by simp
  qed
qed

lemma hideContainerPort_roundtrip:
  assumes "hiddenNameUnused hcp dep"
    and "hideContainerPort_Do hcp dep = (None, hcp', dep')"
  shows "hideContainerPort_Undo hcp' dep' = (None, dep)"
    and "map Cn_Name (Containers dep') = map Cn_Name (Containers dep)"
proof -
  let ?hn = "''tel2mv-'' @ HCP_PortName hcp"
  from assms(2) obtain i pn where
    found: "getPort_loop (ContainerName hcp) (HCP_PortName hcp) (Containers dep) = Some (i, pn)"
    by (auto simp: hideContainerPort_Do_def hideContainerPort_getPort_def
        split: option.splits)
  from getPort_loop_Some [OF found] have il: "i < length (Containers dep)"
    and cname: "Cn_Name (Containers dep ! i) = ContainerName hcp"
    and fi: "firstIndex (\<lambda>p. CP_Name p = HCP_PortName hcp) (Cn_Ports (Containers dep ! i)) = Some pn"
    by auto
  let ?cn = "Containers dep ! i"
  from firstIndex_Some [OF fi] have pl: "pn < length (Cn_Ports ?cn)"
    and pname: "CP_Name (Cn_Ports ?cn ! pn) = HCP_PortName hcp" by auto
  from assms(2) found pname have hcp': "hcp' = hcp\<lparr>HiddenName := ?hn\<rparr>"
    and dep': "dep' = dep\<lparr>Containers :=
        (Containers dep)[i := swapPortName ?cn pn (HCP_PortName hcp) ?hn]\<rparr>"
    by (auto simp: hideContainerPort_Do_def hideContainerPort_getPort_def swapInDeployment_def
        Let_def)
  have cn_in: "?cn \<in> set (Containers dep)" using il by simp
  with assms(1) cname have fresh_ports: "?hn \<notin> set (map CP_Name (Cn_Ports ?cn))"
    and fresh_probes: "?hn \<notin> set (map StrVal (containerProbePorts ?cn))"
    unfolding hiddenNameUnused_def by blast+
  have none: "\<forall>cn\<in>set (Containers dep). Cn_Name cn = ContainerName hcp \<longrightarrow>
           firstIndex (\<lambda>p. CP_Name p = ?hn) (Cn_Ports cn) = None"
  proof (intro ballI impI)
    fix cn assume cn: "cn \<in> set (Containers dep)" "Cn_Name cn = ContainerName hcp"
    with assms(1) have "?hn \<notin> set (map CP_Name (Cn_Ports cn))"
      unfolding hiddenNameUnused_def by blast
    then have "\<forall>p\<in>set (Cn_Ports cn). \<not> CP_Name p = ?hn"
      by (metis image_eqI set_map)
    then show "firstIndex (\<lambda>p. CP_Name p = ?hn) (Cn_Ports cn) = None"
      by (simp only: firstIndex_None)
  qed
  have fi': "firstIndex (\<lambda>p. CP_Name p = ?hn)
      (Cn_Ports (swapPortName ?cn pn (HCP_PortName hcp) ?hn)) = Some pn"
    using firstIndex_renamed [OF pl fresh_ports] by (simp add: swapPortName_def)
  have found': "getPort_loop (ContainerName hcp') (HiddenName hcp') (Containers dep') = Some (i, pn)"
    unfolding hcp' dep'
    using getPort_loop_update [OF found none _ fi'] cname by simp
  have restore: "swapInDeployment dep' (i, pn) (HiddenName hcp') (HCP_PortName hcp') = dep"
    unfolding hcp' dep' swapInDeployment_def
    using il swapPortName_inverse [OF pl pname fresh_probes]
    by (simp add: list_update_same_conv)
  show "hideContainerPort_Undo hcp' dep' = (None, dep)"
    by (simp add: hideContainerPort_Undo_def hideContainerPort_getPort_def found' restore)
  show "map Cn_Name (Containers dep') = map Cn_Name (Containers dep)"
    unfolding dep' using il cname by (simp add: map_update list_update_same_conv)
qed

lemma addTrafficAgent_roundtrip:
  assumes "noAgentContainer dep"
    and "addTrafficAgent_Do pkg ata dep = (None, dep')"
  shows "addTrafficAgent_Undo ata dep' = (None, dep)"
proof -
  from assms(2) obtain appCn where
    dep': "dep' = dep\<lparr>Containers := Containers dep @ [agentContainer pkg ata (Dep_Name dep) appCn]\<rparr>"
    by (auto simp: addTrafficAgent_Do_def split: option.splits)
  have "firstIndex (\<lambda>cn. Cn_Name cn = agentContainerName) (Containers dep) = None"
    using assms(1) by (auto simp: noAgentContainer_def firstIndex_None image_iff)
  then have "firstIndex (\<lambda>cn. Cn_Name cn = agentContainerName) (Containers dep')
      = Some (length (Containers dep))"
    unfolding dep' by (simp add: firstIndex_append_agent)
  then show ?thesis
    by (simp add: addTrafficAgent_Undo_def dep')
qed
lemma noAgentContainer_names:
  "map Cn_Name (Containers dep') = map Cn_Name (Containers dep) \<Longrightarrow>
     noAgentContainer dep \<Longrightarrow> noAgentContainer dep'"
  by (simp add: noAgentContainer_def)

lemma deploymentActions_roundtrip:
  assumes "noAgentContainer dep" "hiddenNameFresh d dep"
    and "deploymentActions_Do pkg (d, dep) = (None, d', dep')"
  shows "deploymentActions_Undo pkg (d', dep') = (None, d', dep)"
proof (cases "HideContainerPort d")
  case None
  note hide = None
  show ?thesis
  proof (cases "AddTrafficAgent d")
    case None
    with hide assms(3) show ?thesis
      by (simp add: deploymentActions_Do_def deploymentActions_Undo_def
          deploymentActions_Actions_def)
  next
    case (Some ata)
    have acts: "deploymentActions_Actions pkg d = [AddTrafficAgent_action pkg]"
      using hide Some by (simp add: deploymentActions_Actions_def)
    from assms(3) have d': "d' = d" and a: "addTrafficAgent_Do pkg ata dep = (None, dep')"
      using Some
      by (auto simp: deploymentActions_Do_def acts AddTrafficAgent_action_def viaField_def
          split: prod.splits option.splits)
    from addTrafficAgent_roundtrip [OF assms(1) a] show ?thesis
      using Some
      by (simp add: deploymentActions_Undo_def d' acts AddTrafficAgent_action_def viaField_def)
  qed
next
  case (Some hcp)
  note hide = Some
  from assms(2) hide have fresh: "hiddenNameUnused hcp dep"
    by (simp add: hiddenNameFresh_def)
  show ?thesis
  proof (cases "AddTrafficAgent d")
    case None
    have acts: "\<And>x. deploymentActions_Actions pkg (d\<lparr>HideContainerPort := Some x\<rparr>)
        = [HideContainerPort_action]"
      using None by (simp add: deploymentActions_Actions_def)
    have acts0: "deploymentActions_Actions pkg d = [HideContainerPort_action]"
      using None hide by (simp add: deploymentActions_Actions_def)
    from assms(3) obtain hcp' where
      d': "d' = d\<lparr>HideContainerPort := Some hcp'\<rparr>"
      and h: "hideContainerPort_Do hcp dep = (None, hcp', dep')"
      using hide
      by (auto simp: deploymentActions_Do_def acts0 HideContainerPort_action_def
          split: prod.splits option.splits)
    from hideContainerPort_roundtrip(1) [OF fresh h] show ?thesis
      by (simp add: deploymentActions_Undo_def d' acts HideContainerPort_action_def viaField_def)
  next
    case (Some ata)
    have acts: "\<And>x. deploymentActions_Actions pkg (d\<lparr>HideContainerPort := Some x\<rparr>)
        = [HideContainerPort_action, AddTrafficAgent_action pkg]"
      using Some by (simp add: deploymentActions_Actions_def)
    have acts0: "deploymentActions_Actions pkg d
        = [HideContainerPort_action, AddTrafficAgent_action pkg]"
      using Some hide by (simp add: deploymentActions_Actions_def)
    from assms(3) obtain hcp' dep1 where
      d': "d' = d\<lparr>HideContainerPort := Some hcp'\<rparr>"
      and h: "hideContainerPort_Do hcp dep = (None, hcp', dep1)"
      and a: "addTrafficAgent_Do pkg ata dep1 = (None, dep')"
      using hide Some
      by (auto simp: deploymentActions_Do_def acts0 HideContainerPort_action_def
          AddTrafficAgent_action_def viaField_def split: prod.splits option.splits)
    have "noAgentContainer dep1"
      using hideContainerPort_roundtrip(2) [OF fresh h] assms(1)
      by (rule noAgentContainer_names)
    from addTrafficAgent_roundtrip [OF this a]
    have ua: "addTrafficAgent_Undo ata dep' = (None, dep1)" .
    have "undoActions [HideContainerPort_action, AddTrafficAgent_action pkg] (d', dep')
        = (case Undo (AddTrafficAgent_action pkg) (d', dep') of
             (Some err, st') \<Rightarrow> (Some err, st')
           | (None, st') \<Rightarrow> undoActions [HideContainerPort_action] st')"
      using undoActions_snoc [of "[HideContainerPort_action]" "AddTrafficAgent_action pkg"]
      by simp
    then show ?thesis
      using Some ua hideContainerPort_roundtrip(1) [OF fresh h]
      by (simp add: deploymentActions_Undo_def d' acts HideContainerPort_action_def
          AddTrafficAgent_action_def viaField_def)
  qed
qed

text \<open>
  C1 (amended).  For a legal service and a legal service plan on which \<open>Do\<close>
  succeeds, \<open>Undo\<close> of the plan as \<open>Do\<close> left it succeeds and gives back the
  service.  For a workload with no agent container, in which the hidden name
  \<open>tel2mv-\<close> followed by the port's name is not yet the name of a port or the
  target of a probe of the container to change, and a plan on which \<open>Do\<close>
  succeeds, \<open>Undo\<close> of the plan as \<open>Do\<close> left it succeeds and gives back the
  workload.  The objects are equal in every field, so also after
  \<open>resourceVersion\<close>, \<open>generation\<close> and \<open>creationTimestamp\<close> are stripped.
\<close>

theorem plan_roundtrip:
  "(legalService svc \<and> legalSvcPlan s svc \<and> svcActions_Do (s, svc) = (None, s', svc')
      \<longrightarrow> svcActions_Undo (s', svc') = (None, s', svc))
   \<and> (noAgentContainer dep \<and> hiddenNameFresh d dep
        \<and> deploymentActions_Do pkg (d, dep) = (None, d', dep')
      \<longrightarrow> deploymentActions_Undo pkg (d', dep') = (None, d', dep))"
  using svcActions_roundtrip deploymentActions_roundtrip by blast

lemma do_hide_hello:
  "hideContainerPort_Do hcpHttp depHello
     = (None, hcpHttp\<lparr>HiddenName := ''tel2mv-http''\<rparr>,
        depHello\<lparr>Containers := [swapPortName appHello 0 ''http'' ''tel2mv-http'']\<rparr>)"
  by (simp add: hideContainerPort_Do_def hideContainerPort_getPort_def swapInDeployment_def
      example_defs)

theorem plan_roundtrip_witness:
  "legalService svcNumeric \<and> legalSvcPlan planMakeSymbolic svcNumeric
   \<and> svcActions_Do (planMakeSymbolic, svcNumeric) = (None, planMakeSymbolic, svcSymbolic)
   \<and> svcActions_Undo (planMakeSymbolic, svcSymbolic) = (None, planMakeSymbolic, svcNumeric)
   \<and> noAgentContainer depHello \<and> hiddenNameFresh planHideAndAgent depHello
   \<and> fst (deploymentActions_Do pkgExample (planHideAndAgent, depHello)) = None
   \<and> deploymentActions_Undo pkgExample
        (snd (deploymentActions_Do pkgExample (planHideAndAgent, depHello)))
       = (None, fst (snd (deploymentActions_Do pkgExample (planHideAndAgent, depHello))),
          depHello)"
proof -
  have s1: "legalService svcNumeric"
    by (simp add: legalService_def example_defs FromInt_def)
  have s2: "legalSvcPlan planMakeSymbolic svcNumeric"
    by (simp add: legalSvcPlan_def example_defs)
  have s3: "svcActions_Do (planMakeSymbolic, svcNumeric) = (None, planMakeSymbolic, svcSymbolic)"
    by (simp add: svcActions_Do_def svcActions_Actions_def MakePortSymbolic_action_def
        viaField_def makePortSymbolic_Do_def makePortSymbolic_getPort_def setTargetPort_def
        example_defs)
  have d1: "noAgentContainer depHello"
    by (simp add: noAgentContainer_def example_defs agentContainerName_def)
  have d2: "hiddenNameFresh planHideAndAgent depHello"
    by (simp add: hiddenNameFresh_def hiddenNameUnused_def containerProbePorts_def
        probePorts_def example_defs FromString_def FromInt_def)
  have app: "appContainer ataHello
      (depHello\<lparr>Containers := [swapPortName appHello 0 ''http'' ''tel2mv-http'']\<rparr>)
      = Some (swapPortName appHello 0 ''http'' ''tel2mv-http'')"
    by (simp add: appContainer_def ataHello_def appHello_def appWith_def)
  have d3: "\<exists>d' dep'. deploymentActions_Do pkgExample (planHideAndAgent, depHello)
      = (None, d', dep')"
    using app
    by (simp add: deploymentActions_Do_def deploymentActions_Actions_def
        HideContainerPort_action_def AddTrafficAgent_action_def viaField_def
        planHideAndAgent_def do_hide_hello addTrafficAgent_Do_def)
  then obtain d' dep' where r: "deploymentActions_Do pkgExample (planHideAndAgent, depHello)
      = (None, d', dep')" by blast
  from plan_roundtrip [where svc = svcNumeric and s = planMakeSymbolic and s' = planMakeSymbolic
      and svc' = svcSymbolic and dep = depHello and d = planHideAndAgent and pkg = pkgExample
      and d' = d' and dep' = dep'] s1 s2 s3 d1 d2 r
  show ?thesis by simp
qed

text \<open>
  The claim as stated fails: in \<open>depCollide\<close> the names of the containers and of
  the ports are distinct, the app container and the port \<open>http\<close> exist and there is
  no agent container; \<open>Do\<close> and \<open>Undo\<close> succeed, and \<open>Undo\<close> gives the name \<open>http\<close>
  to the port that was named \<open>tel2mv-http\<close> before.
\<close>

lemma do_hide_collide:
  "hideContainerPort_Do hcpHttp depCollide
     = (None, hcpHttp\<lparr>HiddenName := ''tel2mv-http''\<rparr>,
        depCollide\<lparr>Containers :=
          [swapPortName (appWith [cnPort ''tel2mv-http'' 9090, cnPort ''http'' 8080] [])
             (Suc 0) ''http'' ''tel2mv-http'']\<rparr>)"
  by (simp add: hideContainerPort_Do_def hideContainerPort_getPort_def swapInDeployment_def
      example_defs)

theorem roundtrip_hidden_name_collision:
  "noAgentContainer depCollide
   \<and> distinct (map Cn_Name (Containers depCollide))
   \<and> distinct (map CP_Name (concat (map Cn_Ports (Containers depCollide))))
   \<and> fst (deploymentActions_Do pkgExample (planHideAndAgent, depCollide)) = None
   \<and> fst (deploymentActions_Undo pkgExample
            (snd (deploymentActions_Do pkgExample (planHideAndAgent, depCollide)))) = None
   \<and> snd (snd (deploymentActions_Undo pkgExample
            (snd (deploymentActions_Do pkgExample (planHideAndAgent, depCollide)))))
       \<noteq> depCollide"
proof -
  let ?app = "appWith [cnPort ''tel2mv-http'' 9090, cnPort ''http'' 8080] []"
  let ?cn1 = "swapPortName ?app (Suc 0) ''http'' ''tel2mv-http''"
  let ?dep1 = "depCollide\<lparr>Containers := [?cn1]\<rparr>"
  let ?d1 = "planHideAndAgent\<lparr>HideContainerPort := Some (hcpHttp\<lparr>HiddenName := ''tel2mv-http''\<rparr>)\<rparr>"
  let ?agent = "agentContainer pkgExample ataHello ''hello'' ?cn1"
  let ?dep2 = "depCollide\<lparr>Containers := [?cn1, ?agent]\<rparr>"
  have a: "noAgentContainer depCollide"
    by (simp add: noAgentContainer_def example_defs agentContainerName_def)
  have b: "distinct (map Cn_Name (Containers depCollide))"
    "distinct (map CP_Name (concat (map Cn_Ports (Containers depCollide))))"
    by (simp_all add: example_defs)
  have nm: "Dep_Name depCollide = ''hello''"
    by (simp add: depCollide_def)
  have app: "appContainer ataHello ?dep1 = Some ?cn1"
    by (simp add: appContainer_def ataHello_def appWith_def)
  have do_eq: "deploymentActions_Do pkgExample (planHideAndAgent, depCollide)
      = (None, ?d1, ?dep2)"
    using app nm
    by (simp add: deploymentActions_Do_def deploymentActions_Actions_def
        HideContainerPort_action_def AddTrafficAgent_action_def viaField_def
        planHideAndAgent_def do_hide_collide addTrafficAgent_Do_def)
  have undo_agent: "addTrafficAgent_Undo ataHello ?dep2 = (None, ?dep1)"
    by (simp add: addTrafficAgent_Undo_def agentContainerName_def appWith_def depCollide_def)
  have undo_hide: "hideContainerPort_Undo (hcpHttp\<lparr>HiddenName := ''tel2mv-http''\<rparr>) ?dep1
      = (None, depCollide\<lparr>Containers :=
           [swapPortName ?cn1 0 ''tel2mv-http'' ''http'']\<rparr>)"
    by (simp add: hideContainerPort_Undo_def hideContainerPort_getPort_def swapInDeployment_def
        swapPortName_def example_defs)
  have undo_eq: "deploymentActions_Undo pkgExample (?d1, ?dep2)
      = (None, ?d1, depCollide\<lparr>Containers := [swapPortName ?cn1 0 ''tel2mv-http'' ''http'']\<rparr>)"
    using undoActions_snoc [of "[HideContainerPort_action]" "AddTrafficAgent_action pkgExample"
        "(?d1, ?dep2)"] undo_agent undo_hide
    by (simp add: deploymentActions_Undo_def deploymentActions_Actions_def
        HideContainerPort_action_def AddTrafficAgent_action_def viaField_def
        planHideAndAgent_def)
  have ne: "depCollide\<lparr>Containers := [swapPortName ?cn1 0 ''tel2mv-http'' ''http'']\<rparr>
      \<noteq> depCollide"
    by (simp add: swapPortName_def example_defs)
  from a b do_eq undo_eq ne show ?thesis by simp
qed

end
